theory Spec2Isabelle
  imports Complex_Main "HOL-Library.Monad_Syntax"
begin

section \<open>Data model\<close>

text \<open>
  The program is one script, \<^verbatim>\<open>app.py\<close>, that transforms a pandas DataFrame in ten
  numbered steps. A DataFrame is modelled as its ordered column labels and its rows; a row
  maps a column label to a cell. A cell is what pandas holds after \<^verbatim>\<open>read_csv\<close>: a missing
  value (NaN, NaT or None), a number, a string (the cells of an object column) or, after
  step 4, a timestamp, kept as whole seconds since the epoch (the time format has no
  fraction of a second).

  Numbers are modelled as reals with \<^verbatim>\<open>NaN\<close> as the missing cell: rounding and the
  infinities of IEEE arithmetic are not modelled.

  The two pandas parsers the script calls on strings, \<^verbatim>\<open>pd.to_numeric\<close> and
  \<^verbatim>\<open>pd.to_datetime\<close>, are library code; the stages take them as the two fields of a
  record \<open>parsers\<close>, with \<open>None\<close> for a string that does not parse (both calls pass
  \<^verbatim>\<open>errors="coerce"\<close>).
\<close>

datatype cell = Missing | Num real | Str string | Time int

type_synonym row = "string \<Rightarrow> cell"

record dataframe =
  columns :: "string list"
  rows :: "row list"

record parsers =
  numeric_of_string :: "string \<Rightarrow> real option"
  datetime_of_string :: "string \<Rightarrow> int option"

datatype py_error = KeyError string

text \<open>The configuration constants of the script (lines 16 to 18) and the resample width
  \<^verbatim>\<open>"15T"\<close> of line 91, in seconds.\<close>

definition SENTINEL :: real where
  "SENTINEL = - 9999"

definition Z_OUTLIER_CUT :: real where
  "Z_OUTLIER_CUT = 3"

definition BUCKET :: int where
  "BUCKET = 900"

section \<open>Step 2: Sanitizer\<close>

text \<open>\<^verbatim>\<open>df.dropna(how="all", inplace=True)\<close> keeps the rows that have a value in at least
  one column; \<^verbatim>\<open>df.replace(SENTINEL, np.nan, inplace=True)\<close> then replaces the cells that
  compare equal to the number \<open>-9999\<close>. A string never compares equal to a number, so the
  cells of an object column are left as they are.\<close>

definition dropna_all :: "dataframe \<Rightarrow> dataframe" where
  "dropna_all df =
     df\<lparr>rows := filter (\<lambda>r. \<not> (\<forall>c \<in> set (columns df). r c = Missing)) (rows df)\<rparr>"

definition replace_cell :: "real \<Rightarrow> cell \<Rightarrow> cell" where
  "replace_cell s c = (if c = Num s then Missing else c)"

definition replace_sentinel :: "dataframe \<Rightarrow> dataframe" where
  "replace_sentinel df = df\<lparr>rows := map (\<lambda>r c. replace_cell SENTINEL (r c)) (rows df)\<rparr>"

definition sanitizer :: "dataframe \<Rightarrow> dataframe" where
  "sanitizer df = replace_sentinel (dropna_all df)"

section \<open>Step 3: ColumnScoper\<close>

text \<open>\<^verbatim>\<open>df.loc[:, :"hbb"]\<close> is a label slice: the columns up to and including \<open>hbb\<close>.\<close>

definition column_scoper :: "dataframe \<Rightarrow> dataframe" where
  "column_scoper df =
     (if ''hbb'' \<in> set (columns df)
      then df\<lparr>columns := takeWhile (\<lambda>c. c \<noteq> ''hbb'') (columns df) @ [''hbb'']\<rparr>
      else df)"

section \<open>Step 4: TimeParser\<close>

text \<open>\<^verbatim>\<open>pd.to_datetime(df["time"], format=TIME_FMT, errors="coerce")\<close>, cell by cell: a
  string that parses becomes a timestamp, every other cell becomes NaT (the text of a
  number never has the \<open>T\<close> and \<open>Z\<close> of the format).\<close>

fun to_datetime_cell :: "parsers \<Rightarrow> cell \<Rightarrow> cell" where
  "to_datetime_cell pd (Str s) =
     (case datetime_of_string pd s of Some t \<Rightarrow> Time t | None \<Rightarrow> Missing)"
| "to_datetime_cell pd (Time t) = Time t"
| "to_datetime_cell pd (Num v) = Missing"
| "to_datetime_cell pd Missing = Missing"

definition time_parser :: "parsers \<Rightarrow> dataframe \<Rightarrow> dataframe" where
  "time_parser pd df =
     (if ''time'' \<in> set (columns df)
      then df\<lparr>rows := map (\<lambda>r. r(''time'' := to_datetime_cell pd (r ''time''))) (rows df)\<rparr>
      else df)"

section \<open>Step 5: AxisResolver\<close>

text \<open>\<^verbatim>\<open>pd.to_numeric(s, errors="coerce")\<close>, cell by cell. On a datetime column pandas
  returns the nanoseconds since the epoch; the script never asks for that, since it coerces
  no column named \<open>time\<close> and only that column holds timestamps.\<close>

fun to_numeric_cell :: "parsers \<Rightarrow> cell \<Rightarrow> cell" where
  "to_numeric_cell pd (Num v) = Num v"
| "to_numeric_cell pd (Str s) =
     (case numeric_of_string pd s of Some v \<Rightarrow> Num v | None \<Rightarrow> Missing)"
| "to_numeric_cell pd (Time t) = Num (of_int (t * 1000000000))"
| "to_numeric_cell pd Missing = Missing"

definition coerce_column :: "parsers \<Rightarrow> string \<Rightarrow> dataframe \<Rightarrow> dataframe" where
  "coerce_column pd col df =
     df\<lparr>rows := map (\<lambda>r. r(col := to_numeric_cell pd (r col))) (rows df)\<rparr>"

definition lat_idx :: "string list \<Rightarrow> nat" where
  "lat_idx cols =
     (if ''latitude'' \<in> set cols then length (takeWhile (\<lambda>c. c \<noteq> ''latitude'') cols) else 0)"

definition axis_cols :: "string list \<Rightarrow> string list" where
  "axis_cols cols =
     (if ''time'' \<in> set cols then [''time''] @ drop (lat_idx cols) cols
      else drop (lat_idx cols) cols)"

definition coerce_axes :: "parsers \<Rightarrow> string list \<Rightarrow> dataframe \<Rightarrow> dataframe" where
  "coerce_axes pd axes df =
     fold (\<lambda>col d. if col \<noteq> ''time'' then coerce_column pd col d else d) axes df"

definition axis_resolver :: "parsers \<Rightarrow> dataframe \<Rightarrow> string list \<times> dataframe" where
  "axis_resolver pd df = (axis_cols (columns df), coerce_axes pd (axis_cols (columns df)) df)"

section \<open>Step 7: RowFilter\<close>

text \<open>\<^verbatim>\<open>df["platform_name"] == platform\<close> compares cell by cell; a missing cell compares
  unequal to everything, and so does the \<^verbatim>\<open>None\<close> that the select box returns when it has
  no option (modelled as the selection \<open>Missing\<close>). Reading a column that the frame does
  not have raises \<^verbatim>\<open>KeyError\<close>, in the loop of line 76 and in \<^verbatim>\<open>dropna(subset=...)\<close>.\<close>

definition cell_eq :: "cell \<Rightarrow> cell \<Rightarrow> bool" where
  "cell_eq a b = (a \<noteq> Missing \<and> b \<noteq> Missing \<and> a = b)"

fun coerce_selected :: "parsers \<Rightarrow> string list \<Rightarrow> dataframe \<Rightarrow> py_error + dataframe" where
  "coerce_selected pd [] data = Inr data"
| "coerce_selected pd (col # cs) data =
     (if col \<noteq> ''time''
      then (if col \<in> set (columns data)
            then coerce_selected pd cs (coerce_column pd col data)
            else Inl (KeyError col))
      else coerce_selected pd cs data)"

definition dropna_subset :: "string list \<Rightarrow> dataframe \<Rightarrow> py_error + dataframe" where
  "dropna_subset labels data =
     (case filter (\<lambda>c. c \<notin> set (columns data)) labels of
        c # _ \<Rightarrow> Inl (KeyError c)
      | [] \<Rightarrow> Inr (data\<lparr>rows := filter (\<lambda>r. \<forall>c \<in> set labels. r c \<noteq> Missing) (rows data)\<rparr>))"

definition row_filter ::
  "parsers \<Rightarrow> dataframe \<Rightarrow> cell \<Rightarrow> string \<Rightarrow> string \<Rightarrow> py_error + dataframe" where
  "row_filter pd df platform x_axis y_axis =
     (if ''platform_name'' \<notin> set (columns df) then Inl (KeyError ''platform_name'')
      else
        case coerce_selected pd [x_axis, y_axis]
               (df\<lparr>rows := filter (\<lambda>r. cell_eq (r ''platform_name'') platform) (rows df)\<rparr>) of
          Inl e \<Rightarrow> Inl e
        | Inr data \<Rightarrow> dropna_subset [x_axis, y_axis] data)"

section \<open>Column statistics\<close>

text \<open>\<^verbatim>\<open>Series.mean()\<close> and \<^verbatim>\<open>Series.std()\<close> skip missing values. The mean of no value
  is NaN; the standard deviation is the sample one (\<^verbatim>\<open>ddof=1\<close>) and is NaN for fewer than
  two values. NaN is \<open>None\<close>. The values are real numbers here and the arithmetic is
  exact, where pandas computes in double precision: the rounding of the sum and of the
  mean is not modelled. In particular, for a column of equal values the deviation below
  is \<open>0\<close>, whereas pandas may return a tiny nonzero number (for three times \<open>0.1\<close>, about
  \<open>1.7e-17\<close>); no statement of this theory concludes that a deviation is zero from the
  values of a column.\<close>

fun numeric_values :: "cell list \<Rightarrow> real list" where
  "numeric_values [] = []"
| "numeric_values (Num v # cs) = v # numeric_values cs"
| "numeric_values (_ # cs) = numeric_values cs"

definition mean_values :: "real list \<Rightarrow> real option" where
  "mean_values vs = (if vs = [] then None else Some (sum_list vs / real (length vs)))"

definition std_values :: "real list \<Rightarrow> real option" where
  "std_values vs =
     (if length vs \<le> 1 then None
      else Some (sqrt (sum_list (map (\<lambda>v. (v - sum_list vs / real (length vs))\<^sup>2) vs)
                       / real (length vs - 1))))"

definition mean :: "cell list \<Rightarrow> real option" where
  "mean cs = mean_values (numeric_values cs)"

definition std :: "cell list \<Rightarrow> real option" where
  "std cs = std_values (numeric_values cs)"

definition column :: "string \<Rightarrow> dataframe \<Rightarrow> cell list" where
  "column col data = map (\<lambda>r. r col) (rows data)"

section \<open>Step 8: Resampler\<close>

text \<open>\<^verbatim>\<open>data.set_index("time").resample("15T")[y_axis].mean().dropna().reset_index()\<close>.
  The bins are the 15 minute intervals from the one of the earliest timestamp to the one of
  the latest, closed on the left and labelled by their start; they are aligned to
  midnight, hence to the multiples of 900 seconds. Each bin gets the mean of the values of
  \<open>y_axis\<close> in it, NaN for a bin without a value, and \<^verbatim>\<open>dropna\<close> removes those. The result
  has the two columns \<open>time\<close> and \<open>y_axis\<close>. After \<^verbatim>\<open>set_index\<close> the frame has no column
  \<open>time\<close> any more, so selecting \<open>time\<close> as \<open>y_axis\<close> raises \<^verbatim>\<open>KeyError\<close>.\<close>

definition bucket :: "int \<Rightarrow> int" where
  "bucket t = t - t mod BUCKET"

fun timestamps :: "row list \<Rightarrow> int list" where
  "timestamps [] = []"
| "timestamps (r # rs) = (case r ''time'' of Time t \<Rightarrow> t # timestamps rs | _ \<Rightarrow> timestamps rs)"

definition bins :: "int list \<Rightarrow> int list" where
  "bins ts =
     (if ts = [] then []
      else map (\<lambda>k. bucket (Min (set ts)) + BUCKET * int k)
             [0 ..< Suc (nat ((bucket (Max (set ts)) - bucket (Min (set ts))) div BUCKET))])"

definition in_bin :: "int \<Rightarrow> row \<Rightarrow> bool" where
  "in_bin b r = (case r ''time'' of Time t \<Rightarrow> bucket t = b | _ \<Rightarrow> False)"

definition bin_mean :: "string \<Rightarrow> row list \<Rightarrow> int \<Rightarrow> real option" where
  "bin_mean y_axis rs b = mean (map (\<lambda>r. r y_axis) (filter (in_bin b) rs))"

definition resampled_row :: "string \<Rightarrow> int \<Rightarrow> real \<Rightarrow> row" where
  "resampled_row y_axis b m = (\<lambda>c. Missing)(''time'' := Time b, y_axis := Num m)"

fun resampled_rows :: "string \<Rightarrow> row list \<Rightarrow> int list \<Rightarrow> row list" where
  "resampled_rows y_axis rs [] = []"
| "resampled_rows y_axis rs (b # bs) =
     (case bin_mean y_axis rs b of
        None \<Rightarrow> resampled_rows y_axis rs bs
      | Some m \<Rightarrow> resampled_row y_axis b m # resampled_rows y_axis rs bs)"

definition resampler :: "string \<Rightarrow> dataframe \<Rightarrow> py_error + dataframe" where
  "resampler y_axis data =
     (if ''time'' \<notin> set (columns data) then Inl (KeyError ''time'')
      else if y_axis = ''time'' \<or> y_axis \<notin> set (columns data) then Inl (KeyError y_axis)
      else Inr \<lparr>columns = [''time'', y_axis],
                rows = resampled_rows y_axis (rows data) (bins (timestamps (rows data)))\<rparr>)"

section \<open>Step 9: Normalizer\<close>

text \<open>One pass of the loop of line 99 for a column other than \<open>time\<close>. \<^verbatim>\<open>sigma != 0\<close> is
  true for a NaN \<open>sigma\<close>; a NaN z-score fails \<^verbatim>\<open>z.abs() <= Z_OUTLIER_CUT\<close>.\<close>

definition zscore :: "real option \<Rightarrow> real option \<Rightarrow> cell \<Rightarrow> real option" where
  "zscore mu sigma c =
     (case (c, mu, sigma) of
        (Num v, Some m, Some s) \<Rightarrow> Some ((v - m) / s)
      | _ \<Rightarrow> None)"

definition within_cut :: "real option \<Rightarrow> bool" where
  "within_cut z = (case z of Some v \<Rightarrow> \<bar>v\<bar> \<le> Z_OUTLIER_CUT | None \<Rightarrow> False)"

definition float_cell :: "real option \<Rightarrow> cell" where
  "float_cell z = (case z of Some v \<Rightarrow> Num v | None \<Rightarrow> Missing)"

definition zscore_with :: "real option \<Rightarrow> real option \<Rightarrow> string \<Rightarrow> dataframe \<Rightarrow> dataframe" where
  "zscore_with mu sigma col data =
     (if sigma \<noteq> Some 0
      then data\<lparr>rows := map (\<lambda>r. r(col := float_cell (zscore mu sigma (r col))))
                           (filter (\<lambda>r. within_cut (zscore mu sigma (r col))) (rows data))\<rparr>
      else data\<lparr>rows := map (\<lambda>r. r(col := Num 0)) (rows data)\<rparr>)"

definition zscore_pass :: "string \<Rightarrow> dataframe \<Rightarrow> py_error + dataframe" where
  "zscore_pass col data =
     (if col \<notin> set (columns data) then Inl (KeyError col)
      else Inr (zscore_with (mean (column col data)) (std (column col data)) col data))"

fun normalizer_loop :: "string list \<Rightarrow> dataframe \<Rightarrow> py_error + dataframe" where
  "normalizer_loop [] data = Inr data"
| "normalizer_loop (col # cs) data =
     (if col = ''time'' then normalizer_loop cs data
      else case zscore_pass col data of
             Inl e \<Rightarrow> Inl e
           | Inr data' \<Rightarrow> normalizer_loop cs data')"

definition normalizer :: "string \<Rightarrow> string \<Rightarrow> dataframe \<Rightarrow> py_error + dataframe" where
  "normalizer x_axis y_axis data = normalizer_loop [x_axis, y_axis] data"

section \<open>The pipeline\<close>

text \<open>The run of the script from line 36 on, for the frame read from the file and the three
  selections of the widgets. It ends in an uncaught exception, in one of the two warnings
  followed by \<^verbatim>\<open>st.stop()\<close>, or with the frame handed to the chart. Line 65 reads
  \<^verbatim>\<open>df["platform_name"]\<close> before any widget is shown.\<close>

datatype warning = No_data_left | All_rows_removed

datatype outcome = Raised py_error | Stopped warning | Plotted dataframe

definition prepare :: "parsers \<Rightarrow> dataframe \<Rightarrow> dataframe" where
  "prepare pd df = snd (axis_resolver pd (time_parser pd (column_scoper (sanitizer df))))"

definition resample_step :: "string \<Rightarrow> string \<Rightarrow> dataframe \<Rightarrow> py_error + dataframe" where
  "resample_step x_axis y_axis data =
     (if x_axis = ''time'' then resampler y_axis data else Inr data)"

definition finish :: "string \<Rightarrow> string \<Rightarrow> dataframe \<Rightarrow> outcome" where
  "finish x_axis y_axis data =
     (case normalizer x_axis y_axis data of
        Inl e \<Rightarrow> Raised e
      | Inr data' \<Rightarrow> if rows data' = [] then Stopped All_rows_removed else Plotted data')"

definition run :: "parsers \<Rightarrow> dataframe \<Rightarrow> cell \<Rightarrow> string \<Rightarrow> string \<Rightarrow> outcome" where
  "run pd df platform x_axis y_axis =
     (if ''platform_name'' \<notin> set (columns (prepare pd df)) then Raised (KeyError ''platform_name'')
      else
        case row_filter pd (prepare pd df) platform x_axis y_axis of
          Inl e \<Rightarrow> Raised e
        | Inr data \<Rightarrow>
            if rows data = [] then Stopped No_data_left
            else
              (case resample_step x_axis y_axis data of
                 Inl e \<Rightarrow> Raised e
               | Inr data' \<Rightarrow> finish x_axis y_axis data'))"

section \<open>The two library parsers\<close>

text \<open>\<^verbatim>\<open>pd.to_datetime\<close> with \<^verbatim>\<open>format="%Y-%m-%dT%H:%M:%SZ"\<close>, on one string. This is
  code of the library, not of the script; it is modelled after the pattern that
  \<^verbatim>\<open>strptime\<close> builds from the format and matches without regard to letter case:

  \<^verbatim>\<open>(?P<Y>\d\d\d\d)-(?P<m>1[0-2]|0[1-9]|[1-9])-(?P<d>3[0-1]|[1-2]\d|0[1-9]|[1-9]| [1-9])T\<close>
  \<^verbatim>\<open>(?P<H>2[0-3]|[0-1]\d|\d):(?P<M>[0-5]\d|\d):(?P<S>6[0-1]|[0-5]\d|\d)Z\<close>

  \<^verbatim>\<open>%Y\<close> is four digits; \<^verbatim>\<open>%m\<close>, \<^verbatim>\<open>%d\<close>, \<^verbatim>\<open>%H\<close>, \<^verbatim>\<open>%M\<close> and \<^verbatim>\<open>%S\<close> are one or two
  digits within the range of the field (the leading zero is optional, and the day may
  have a blank in its place); \<open>T\<close> and \<open>Z\<close> may be in either case; nothing may follow. The
  fields must then be a date of the calendar and a time of day, and the instant must fit
  the 64 bit count of nanoseconds that a pandas timestamp holds; a string that fails any
  of this is coerced to NaT. The timestamp is the number of seconds since the epoch, by
  the usual days-from-civil computation. Strings are lists of 8 bit characters, so the
  digits are the ten ASCII ones.\<close>

definition is_digit :: "char \<Rightarrow> bool" where
  "is_digit c = (48 \<le> (of_char c :: nat) \<and> (of_char c :: nat) \<le> 57)"

definition digit_value :: "char \<Rightarrow> nat" where
  "digit_value c = of_char c - 48"

definition digit_char :: "nat \<Rightarrow> char" where
  "digit_char d = char_of (48 + d)"

definition number :: "string \<Rightarrow> nat" where
  "number ds = foldl (\<lambda>n c. 10 * n + digit_value c) 0 ds"

record datetime =
  year :: nat
  month :: nat
  day :: nat
  hour :: nat
  minute :: nat
  second :: nat

definition field :: "nat \<Rightarrow> nat \<Rightarrow> nat \<Rightarrow> nat \<Rightarrow> string \<Rightarrow> (nat \<times> string) option" where
  "field wmin wmax lo hi s =
     (let ds = takeWhile is_digit s in
      if wmin \<le> length ds \<and> length ds \<le> wmax \<and> lo \<le> number ds \<and> number ds \<le> hi
      then Some (number ds, dropWhile is_digit s) else None)"

definition literal :: "char \<Rightarrow> string \<Rightarrow> string option" where
  "literal c s = (case s of [] \<Rightarrow> None | d # r \<Rightarrow> if d = c then Some r else None)"

definition letter :: "char \<Rightarrow> char \<Rightarrow> string \<Rightarrow> string option" where
  "letter upper lower s =
     (case s of [] \<Rightarrow> None | d # r \<Rightarrow> if d = upper \<or> d = lower then Some r else None)"

definition day_field :: "string \<Rightarrow> (nat \<times> string) option" where
  "day_field s =
     (case s of
        c # d # r \<Rightarrow>
          if c = CHR '' '' \<and> is_digit d \<and> d \<noteq> CHR ''0'' then Some (digit_value d, r)
          else field 1 2 1 31 s
      | _ \<Rightarrow> field 1 2 1 31 s)"

definition leap :: "nat \<Rightarrow> bool" where
  "leap y = (y mod 4 = 0 \<and> (y mod 100 \<noteq> 0 \<or> y mod 400 = 0))"

definition days_in_month :: "nat \<Rightarrow> nat \<Rightarrow> nat" where
  "days_in_month y m =
     (if m = 2 then (if leap y then 29 else 28)
      else if m = 4 \<or> m = 6 \<or> m = 9 \<or> m = 11 then 30 else 31)"

definition valid_datetime :: "datetime \<Rightarrow> bool" where
  "valid_datetime f =
     (1 \<le> year f \<and> year f \<le> 9999 \<and> 1 \<le> month f \<and> month f \<le> 12 \<and>
      1 \<le> day f \<and> day f \<le> days_in_month (year f) (month f) \<and>
      hour f \<le> 23 \<and> minute f \<le> 59 \<and> second f \<le> 59)"

definition strptime :: "string \<Rightarrow> datetime option" where
  "strptime s0 = do {
     (y, s1) \<leftarrow> field 4 4 0 9999 s0;
     s2 \<leftarrow> literal (CHR ''-'') s1;
     (m, s3) \<leftarrow> field 1 2 1 12 s2;
     s4 \<leftarrow> literal (CHR ''-'') s3;
     (d, s5) \<leftarrow> day_field s4;
     s6 \<leftarrow> letter (CHR ''T'') (CHR ''t'') s5;
     (H, s7) \<leftarrow> field 1 2 0 23 s6;
     s8 \<leftarrow> literal (CHR '':'') s7;
     (M, s9) \<leftarrow> field 1 2 0 59 s8;
     s10 \<leftarrow> literal (CHR '':'') s9;
     (S, s11) \<leftarrow> field 1 2 0 61 s10;
     s12 \<leftarrow> letter (CHR ''Z'') (CHR ''z'') s11;
     (let f = \<lparr>year = y, month = m, day = d, hour = H, minute = M, second = S\<rparr> in
      if s12 = [] \<and> valid_datetime f then Some f else None)
   }"

definition days_from_civil :: "int \<Rightarrow> int \<Rightarrow> int \<Rightarrow> int" where
  "days_from_civil y m d =
     (let y' = (if m \<le> 2 then y - 1 else y);
          era = y' div 400;
          yoe = y' - era * 400;
          doy = (153 * (if m > 2 then m - 3 else m + 9) + 2) div 5 + d - 1;
          doe = yoe * 365 + yoe div 4 - yoe div 100 + doy
      in era * 146097 + doe - 719468)"

definition timegm :: "datetime \<Rightarrow> int" where
  "timegm f =
     days_from_civil (int (year f)) (int (month f)) (int (day f)) * 86400 +
     int (hour f) * 3600 + int (minute f) * 60 + int (second f)"

definition in_bounds :: "int \<Rightarrow> bool" where
  "in_bounds t = (- 9223372036 \<le> t \<and> t \<le> 9223372036)"

definition to_datetime :: "string \<Rightarrow> int option" where
  "to_datetime s =
     (case strptime s of
        None \<Rightarrow> None
      | Some f \<Rightarrow> if in_bounds (timegm f) then Some (timegm f) else None)"

text \<open>The same format read the other way, as \<^verbatim>\<open>strftime\<close> prints it: every field with its
  leading zeros.\<close>

fun pad :: "nat \<Rightarrow> nat \<Rightarrow> string" where
  "pad 0 n = []"
| "pad (Suc w) n = pad w (n div 10) @ [digit_char (n mod 10)]"

definition strftime :: "datetime \<Rightarrow> string" where
  "strftime f =
     pad 4 (year f) @ ''-'' @ pad 2 (month f) @ ''-'' @ pad 2 (day f) @ ''T'' @
     pad 2 (hour f) @ '':'' @ pad 2 (minute f) @ '':'' @ pad 2 (second f) @ ''Z''"

text \<open>\<^verbatim>\<open>pd.to_numeric\<close> on the strings of the examples below: the text of a whole number,
  with or without a minus sign, is that number, and text without a digit is not a number.
  The library reads more forms (fractions, exponents, surrounding blanks); the examples
  use none of them, and every theorem about the stages holds for any parser.\<close>

definition integer_literal :: "string \<Rightarrow> real option" where
  "integer_literal s =
     (case s of
        [] \<Rightarrow> None
      | c # ds \<Rightarrow>
          if c = CHR ''-'' then
            (if ds \<noteq> [] \<and> list_all is_digit ds then Some (- real (number ds)) else None)
          else if list_all is_digit s then Some (real (number s)) else None)"

definition pandas :: parsers where
  "pandas = \<lparr>numeric_of_string = integer_literal, datetime_of_string = to_datetime\<rparr>"

section \<open>Properties of frames\<close>

text \<open>The notions the statements below use. A row is blank in a frame when it has no value
  in any column; a frame shows the sentinel when some cell of some column is the number
  \<open>-9999\<close>.\<close>

definition blank_row :: "dataframe \<Rightarrow> row \<Rightarrow> bool" where
  "blank_row df r = (\<forall>c \<in> set (columns df). r c = Missing)"

definition shows_sentinel :: "dataframe \<Rightarrow> bool" where
  "shows_sentinel df = (\<exists>r \<in> set (rows df). \<exists>c \<in> set (columns df). r c = Num SENTINEL)"

text \<open>The Normalizer in the words of the specification, for one column and the rows that
  currently survive. The z-score of a row is its own value minus the mean of the column,
  divided by the standard deviation of the column; it is not a number when the value, the
  mean or the deviation is not, or when the deviation is zero. Unless the deviation is
  zero, a row is rejected when the absolute value of its z-score exceeds 3, and also when
  it has no z-score. The column of the remaining rows is overwritten, each row with its
  own z-score; a column of zero deviation is set to \<open>0\<close> and loses no row.\<close>

definition own_z :: "string \<Rightarrow> row list \<Rightarrow> row \<Rightarrow> real option" where
  "own_z col rs r =
     (case (r col, mean (map (\<lambda>r. r col) rs), std (map (\<lambda>r. r col) rs)) of
        (Num v, Some m, Some s) \<Rightarrow> if s = 0 then None else Some ((v - m) / s)
      | _ \<Rightarrow> None)"

definition rejected :: "string \<Rightarrow> row list \<Rightarrow> row \<Rightarrow> bool" where
  "rejected col rs r =
     (std (map (\<lambda>r. r col) rs) \<noteq> Some 0 \<and>
      (case own_z col rs r of Some z \<Rightarrow> \<bar>z\<bar> > 3 | None \<Rightarrow> True))"

definition normalized :: "string \<Rightarrow> row list \<Rightarrow> row list" where
  "normalized col rs =
     (if std (map (\<lambda>r. r col) rs) = Some 0 then map (\<lambda>r. r(col := Num 0)) rs
      else map (\<lambda>r. r(col := (case own_z col rs r of Some z \<Rightarrow> Num z | None \<Rightarrow> Missing)))
             (filter (\<lambda>r. \<not> rejected col rs r) rs))"

text \<open>The values that a bin of the Resampler averages: those of \<open>y_axis\<close>, missing ones
  left out, in the rows whose timestamp falls in the bin.\<close>

definition contributing :: "string \<Rightarrow> row list \<Rightarrow> int \<Rightarrow> real list" where
  "contributing y_axis rs b = numeric_values (map (\<lambda>r. r y_axis) (filter (in_bin b) rs))"

text \<open>What a cell can be after \<^verbatim>\<open>pd.to_numeric\<close> and after \<^verbatim>\<open>pd.to_datetime\<close>.\<close>

definition coerced :: "cell \<Rightarrow> bool" where
  "coerced c = (c = Missing \<or> (\<exists>v. c = Num v))"

definition timestamp_or_missing :: "cell \<Rightarrow> bool" where
  "timestamp_or_missing c = (c = Missing \<or> (\<exists>t. c = Time t))"

section \<open>Example frames\<close>

text \<open>Frames as \<^verbatim>\<open>read_csv\<close> returns them, for the instances below.\<close>

definition reading :: "cell \<Rightarrow> cell \<Rightarrow> cell \<Rightarrow> row" where
  "reading p lat h = (\<lambda>c. Missing)(''platform_name'' := p, ''latitude'' := lat, ''hbb'' := h)"

definition single_df :: dataframe where
  "single_df =
     \<lparr>columns = [''platform_name'', ''latitude'', ''hbb''],
      rows = [reading (Str ''A'') (Num 1) (Num 2)]\<rparr>"

definition timed :: "int \<Rightarrow> real \<Rightarrow> row" where
  "timed t h = (\<lambda>c. Missing)(''platform_name'' := Str ''A'', ''time'' := Time t, ''hbb'' := Num h)"

definition timed_df :: dataframe where
  "timed_df =
     \<lparr>columns = [''platform_name'', ''time'', ''hbb''],
      rows = [timed 1000 10, timed 0 1, timed 60 3]\<rparr>"

text \<open>The frame of the file
  \<^verbatim>\<open>platform_name,latitude,hbb\<close> /
  \<^verbatim>\<open>,,-9999\<close> /
  \<^verbatim>\<open>A,-9999,1\<close> /
  \<^verbatim>\<open>A,x,2\<close>:
  the \<open>x\<close> makes \<open>latitude\<close> an object column, whose cells are strings.\<close>

definition sentinel_df :: dataframe where
  "sentinel_df =
     \<lparr>columns = [''platform_name'', ''latitude'', ''hbb''],
      rows = [reading Missing Missing (Num (- 9999)),
              reading (Str ''A'') (Str ''-9999'') (Num 1),
              reading (Str ''A'') (Str ''x'') (Num 2)]\<rparr>"

definition no_platform_df :: dataframe where
  "no_platform_df =
     \<lparr>columns = [''latitude'', ''hbb''],
      rows = [reading Missing (Num 1) (Num 2), reading Missing (Num 3) (Num 4)]\<rparr>"

definition mixed_df :: dataframe where
  "mixed_df =
     \<lparr>columns = [''platform_name'', ''latitude'', ''hbb''],
      rows = [reading (Str ''A'') (Num 0) (Num 5),
              reading (Str ''B'') (Num 1) (Num 6),
              reading (Str ''A'') Missing (Num 7),
              reading (Str ''A'') (Num 2) (Num 8)]\<rparr>"

definition bare_df :: dataframe where
  "bare_df = \<lparr>columns = [''value''], rows = [(\<lambda>c. Missing)(''value'' := Num 1)]\<rparr>"

text \<open>Twelve rows of one platform. In \<open>latitude\<close> the mean is 2 and the standard
  deviation 6, so the third row, with 21, has the z-score 19/6 and is an outlier; in
  \<open>hbb\<close> the eleven other rows have mean 0 and deviation 2. The two lists after it are
  the rows after the pass over \<open>latitude\<close> and after both passes.\<close>

definition outlier_df :: dataframe where
  "outlier_df =
     \<lparr>columns = [''platform_name'', ''latitude'', ''hbb''],
      rows = [reading (Str ''A'') (Num 0) (Num (- 2)),
              reading (Str ''A'') (Num 0) (Num (- 2)),
              reading (Str ''A'') (Num 21) (Num 50),
              reading (Str ''A'') (Num 0) (Num (- 2)),
              reading (Str ''A'') (Num 0) (Num (- 2)),
              reading (Str ''A'') (Num 0) (Num (- 2)),
              reading (Str ''A'') (Num 0) (Num 0),
              reading (Str ''A'') (Num 0) (Num 2),
              reading (Str ''A'') (Num 0) (Num 2),
              reading (Str ''A'') (Num 1) (Num 2),
              reading (Str ''A'') (Num 1) (Num 2),
              reading (Str ''A'') (Num 1) (Num 2)]\<rparr>"

definition outlier_half :: "row list" where
  "outlier_half =
     [reading (Str ''A'') (Num (- 1 / 3)) (Num (- 2)),
      reading (Str ''A'') (Num (- 1 / 3)) (Num (- 2)),
      reading (Str ''A'') (Num (- 1 / 3)) (Num (- 2)),
      reading (Str ''A'') (Num (- 1 / 3)) (Num (- 2)),
      reading (Str ''A'') (Num (- 1 / 3)) (Num (- 2)),
      reading (Str ''A'') (Num (- 1 / 3)) (Num 0),
      reading (Str ''A'') (Num (- 1 / 3)) (Num 2),
      reading (Str ''A'') (Num (- 1 / 3)) (Num 2),
      reading (Str ''A'') (Num (- 1 / 6)) (Num 2),
      reading (Str ''A'') (Num (- 1 / 6)) (Num 2),
      reading (Str ''A'') (Num (- 1 / 6)) (Num 2)]"

definition outlier_out :: "row list" where
  "outlier_out =
     [reading (Str ''A'') (Num (- 1 / 3)) (Num (- 1)),
      reading (Str ''A'') (Num (- 1 / 3)) (Num (- 1)),
      reading (Str ''A'') (Num (- 1 / 3)) (Num (- 1)),
      reading (Str ''A'') (Num (- 1 / 3)) (Num (- 1)),
      reading (Str ''A'') (Num (- 1 / 3)) (Num (- 1)),
      reading (Str ''A'') (Num (- 1 / 3)) (Num 0),
      reading (Str ''A'') (Num (- 1 / 3)) (Num 1),
      reading (Str ''A'') (Num (- 1 / 3)) (Num 1),
      reading (Str ''A'') (Num (- 1 / 6)) (Num 1),
      reading (Str ''A'') (Num (- 1 / 6)) (Num 1),
      reading (Str ''A'') (Num (- 1 / 6)) (Num 1)]"

text \<open>A frame without the columns \<open>time\<close>, \<open>latitude\<close> and \<open>hbb\<close>, with numbered
  platforms.\<close>

definition sample :: "cell \<Rightarrow> cell \<Rightarrow> cell \<Rightarrow> row" where
  "sample p v d = (\<lambda>c. Missing)(''platform_name'' := p, ''value'' := v, ''depth'' := d)"

definition plain_df :: dataframe where
  "plain_df =
     \<lparr>columns = [''platform_name'', ''value'', ''depth''],
      rows = [sample (Num 7) (Num 0) (Num 3),
              sample (Num 7) (Num 1) (Num 4),
              sample (Num 7) (Num 2) (Num 5)]\<rparr>"

text \<open>The frame of the file
  \<^verbatim>\<open>platform_name,time,latitude,hbb\<close> /
  \<^verbatim>\<open>A,2024-01-05T03:04:05Z,1,2\<close> /
  \<^verbatim>\<open>A,2024-01-05T03:10:00Z,3,4\<close>.\<close>

definition sighting :: "cell \<Rightarrow> cell \<Rightarrow> cell \<Rightarrow> cell \<Rightarrow> row" where
  "sighting p t lat h =
     (\<lambda>c. Missing)(''platform_name'' := p, ''time'' := t, ''latitude'' := lat, ''hbb'' := h)"

definition clock_df :: dataframe where
  "clock_df =
     \<lparr>columns = [''platform_name'', ''time'', ''latitude'', ''hbb''],
      rows = [sighting (Str ''A'') (Str ''2024-01-05T03:04:05Z'') (Num 1) (Num 2),
              sighting (Str ''A'') (Str ''2024-01-05T03:10:00Z'') (Num 3) (Num 4)]\<rparr>"

section \<open>Lemmas about the stages\<close>

subsection \<open>Statistics and the Normalizer\<close>

lemma std_values_short: "length vs \<le> 1 \<Longrightarrow> std_values vs = None"
  by (simp add: std_values_def)

lemma numeric_values_length: "length (numeric_values cs) \<le> length cs"
  by (induction cs rule: numeric_values.induct) auto

lemma std_short: "length cs \<le> 1 \<Longrightarrow> std cs = None"
  unfolding std_def using numeric_values_length [of cs] by (intro std_values_short) linarith

lemma within_cut_None [simp]: "\<not> within_cut None"
  by (simp add: within_cut_def)

lemma zscore_NaN_sigma [simp]: "zscore mu None c = None"
  by (simp add: zscore_def split: cell.splits option.splits)

lemma zscore_with_NaN_sigma: "zscore_with mu None col data = data\<lparr>rows := []\<rparr>"
  by (simp add: zscore_with_def)

lemma columns_zscore_with [simp]: "columns (zscore_with mu sigma col data) = columns data"
  by (simp add: zscore_with_def)

lemma zscore_pass_short:
  assumes "col \<in> set (columns data)" "length (rows data) \<le> 1"
  shows "zscore_pass col data = Inr (data\<lparr>rows := []\<rparr>)"
proof -
  have "length (column col data) \<le> 1" using assms(2) by (simp add: column_def)
  then have "std (column col data) = None" by (rule std_short)
  then show ?thesis using assms(1) by (simp add: zscore_pass_def zscore_with_NaN_sigma)
qed

lemma single_row_normalizer:
  assumes "length (rows data) \<le> 1" "x_axis \<in> set (columns data)" "y_axis \<in> set (columns data)"
    "x_axis \<noteq> ''time'' \<or> y_axis \<noteq> ''time''"
  shows "normalizer x_axis y_axis data = Inr (data\<lparr>rows := []\<rparr>)"
  using assms by (auto simp: normalizer_def zscore_pass_short)

lemma zscore_with_zero:
  "zscore_with mu (Some 0) col data = data\<lparr>rows := map (\<lambda>r. r(col := Num 0)) (rows data)\<rparr>"
  by (simp add: zscore_with_def)

lemma within_cut_Some: "within_cut z \<Longrightarrow> \<exists>v. z = Some v \<and> \<bar>v\<bar> \<le> Z_OUTLIER_CUT"
  by (cases z) (auto simp: within_cut_def)

lemma zscore_pass_Inr:
  "zscore_pass col data = Inr data' \<longleftrightarrow>
     col \<in> set (columns data) \<and>
     data' = zscore_with (mean (column col data)) (std (column col data)) col data"
  by (auto simp: zscore_pass_def)

lemma normalizer_cases:
  "normalizer x_axis y_axis data = Inr out \<longleftrightarrow>
     (if x_axis = ''time'' then (if y_axis = ''time'' then out = data else zscore_pass y_axis data = Inr out)
      else \<exists>d. zscore_pass x_axis data = Inr d \<and>
                (if y_axis = ''time'' then out = d else zscore_pass y_axis d = Inr out))"
  by (auto simp: normalizer_def split: sum.splits)


lemma own_z_zscore:
  "std (map (\<lambda>r. r col) rs) \<noteq> Some 0 \<Longrightarrow>
   own_z col rs r = zscore (mean (map (\<lambda>r. r col) rs)) (std (map (\<lambda>r. r col) rs)) (r col)"
  by (auto simp: own_z_def zscore_def split: cell.splits option.splits)

lemma rejected_within_cut:
  "std (map (\<lambda>r. r col) rs) \<noteq> Some 0 \<Longrightarrow>
   rejected col rs r \<longleftrightarrow>
     \<not> within_cut (zscore (mean (map (\<lambda>r. r col) rs)) (std (map (\<lambda>r. r col) rs)) (r col))"
  by (auto simp: rejected_def own_z_zscore within_cut_def Z_OUTLIER_CUT_def split: option.splits)

lemma rows_zscore_with_normalized:
  "rows (zscore_with (mean (column col data)) (std (column col data)) col data) =
     normalized col (rows data)"
proof (cases "std (map (\<lambda>r. r col) (rows data)) = Some 0")
  case True
  then show ?thesis by (simp add: zscore_with_def normalized_def column_def)
next
  case False
  have "map (\<lambda>r. r(col := float_cell (zscore (mean (map (\<lambda>r. r col) (rows data)))
                 (std (map (\<lambda>r. r col) (rows data))) (r col))))
          (filter (\<lambda>r. within_cut (zscore (mean (map (\<lambda>r. r col) (rows data)))
                 (std (map (\<lambda>r. r col) (rows data))) (r col))) (rows data)) =
        map (\<lambda>r. r(col := (case own_z col (rows data) r of Some z \<Rightarrow> Num z | None \<Rightarrow> Missing)))
          (filter (\<lambda>r. \<not> rejected col (rows data) r) (rows data))"
    by (simp add: rejected_within_cut [OF False] own_z_zscore [OF False] float_cell_def)
  with False show ?thesis by (simp add: zscore_with_def normalized_def column_def)
qed

lemma zscore_pass_rows:
  "zscore_pass col data = Inr out \<Longrightarrow> rows out = normalized col (rows data) \<and> columns out = columns data"
  by (auto simp: zscore_pass_def rows_zscore_with_normalized split: if_splits)

lemma normalizer_rows:
  assumes "normalizer x_axis y_axis data = Inr out"
  shows "rows out =
     (if y_axis = ''time'' then (\<lambda>rs. rs) else normalized y_axis)
       ((if x_axis = ''time'' then (\<lambda>rs. rs) else normalized x_axis) (rows data))"
  using assms by (auto simp: normalizer_cases dest!: zscore_pass_rows split: if_splits)

lemma normalized_own:
  assumes "r \<in> set (normalized col rs)"
  shows "\<exists>v. r col = Num v \<and> \<bar>v\<bar> \<le> Z_OUTLIER_CUT"
proof (cases "std (map (\<lambda>r. r col) rs) = Some 0")
  case True
  with assms show ?thesis by (auto simp: normalized_def Z_OUTLIER_CUT_def)
next
  case False
  with assms obtain r0 where "\<not> rejected col rs r0"
    "r = r0(col := (case own_z col rs r0 of Some z \<Rightarrow> Num z | None \<Rightarrow> Missing))"
    by (auto simp: normalized_def)
  with False show ?thesis
    by (auto simp: rejected_def Z_OUTLIER_CUT_def split: option.splits)
qed

lemma normalized_other:
  assumes "r \<in> set (normalized col rs)" "c \<noteq> col"
  shows "\<exists>r0 \<in> set rs. r c = r0 c"
  using assms by (auto simp: normalized_def split: if_splits)


lemma zscore_pass_eqI:
  assumes "col \<in> set (columns data)" "columns d = columns data"
    "rows d = normalized col (rows data)"
  shows "zscore_pass col data = Inr d"
proof -
  have "zscore_with (mean (column col data)) (std (column col data)) col data = d"
    by (rule dataframe.equality) (simp_all add: rows_zscore_with_normalized assms)
  with assms(1) show ?thesis by (simp add: zscore_pass_def)
qed

subsection \<open>RowFilter and the pipeline\<close>

lemma columns_coerce_column [simp]: "columns (coerce_column pd col d) = columns d"
  by (simp add: coerce_column_def)

lemma coerce_selected_columns:
  "coerce_selected pd cs d = Inr d' \<Longrightarrow> columns d' = columns d"
  by (induction pd cs d rule: coerce_selected.induct) (auto split: if_splits)

lemma dropna_subset_Inr:
  "dropna_subset labels d = Inr d' \<longleftrightarrow>
     set labels \<subseteq> set (columns d) \<and>
     d' = d\<lparr>rows := filter (\<lambda>r. \<forall>c \<in> set labels. r c \<noteq> Missing) (rows d)\<rparr>"
proof (cases "filter (\<lambda>c. c \<notin> set (columns d)) labels")
  case Nil
  then have "set labels \<subseteq> set (columns d)" by (auto simp: filter_empty_conv)
  with Nil show ?thesis by (auto simp: dropna_subset_def)
next
  case (Cons c cs)
  then have "c \<in> set (filter (\<lambda>c. c \<notin> set (columns d)) labels)" by simp
  then have "\<not> set labels \<subseteq> set (columns d)" by auto
  with Cons show ?thesis by (simp add: dropna_subset_def)
qed

lemma row_filter_Inr:
  assumes "row_filter pd df platform x_axis y_axis = Inr data"
  shows "columns data = columns df" "x_axis \<in> set (columns df)" "y_axis \<in> set (columns df)"
    "''platform_name'' \<in> set (columns df)"
    "\<forall>r \<in> set (rows data). r x_axis \<noteq> Missing \<and> r y_axis \<noteq> Missing"
  using assms
  by (auto simp: row_filter_def dropna_subset_Inr split: if_splits sum.splits dest!: coerce_selected_columns)

lemma resampler_Inr:
  assumes "resampler y_axis data = Inr data'"
  shows "columns data' = [''time'', y_axis]"
  using assms by (auto simp: resampler_def split: if_splits)


subsection \<open>Resampler\<close>

lemma bucket_eq: "bucket t = BUCKET * (t div BUCKET)"
  by (simp add: bucket_def minus_mod_eq_mult_div)

lemma bucket_mono: "s \<le> t \<Longrightarrow> bucket s \<le> bucket t"
  by (simp add: bucket_eq BUCKET_def zdiv_mono1)

lemma sorted_affine: "sorted_wrt (<) (map (\<lambda>k. c + BUCKET * int k) [0 ..< n])"
proof -
  have "sorted_wrt (\<lambda>j k. c + BUCKET * int j < c + BUCKET * int k) [0 ..< n]"
    by (rule sorted_wrt_mono_rel [OF _ sorted_wrt_upt]) (simp add: BUCKET_def)
  then show ?thesis by (simp only: sorted_wrt_map)
qed

lemma sorted_bins: "sorted_wrt (<) (bins ts)"
proof (cases "ts = []")
  case True
  then show ?thesis by (simp add: bins_def)
next
  case False
  then have "bins ts = map (\<lambda>k. bucket (Min (set ts)) + BUCKET * int k)
             [0 ..< Suc (nat ((bucket (Max (set ts)) - bucket (Min (set ts))) div BUCKET))]"
    by (simp only: bins_def if_False)
  then show ?thesis by (simp only: sorted_affine)
qed

lemma bucket_in_bins:
  assumes "t \<in> set ts"
  shows "bucket t \<in> set (bins ts)"
proof -
  let ?lo = "Min (set ts)" and ?hi = "Max (set ts)"
  have ne: "ts \<noteq> []" using assms by auto
  have lo: "?lo \<le> t" and hi: "t \<le> ?hi" using assms by simp_all
  let ?n = "nat ((bucket ?hi - bucket ?lo) div BUCKET)"
  let ?k = "nat (t div BUCKET - ?lo div BUCKET)"
  have d1: "?lo div BUCKET \<le> t div BUCKET" using lo by (simp add: BUCKET_def zdiv_mono1)
  have d2: "t div BUCKET \<le> ?hi div BUCKET" using hi by (simp add: BUCKET_def zdiv_mono1)
  have "bucket ?hi - bucket ?lo = BUCKET * (?hi div BUCKET - ?lo div BUCKET)"
    unfolding bucket_eq by (rule right_diff_distrib [symmetric])
  then have "(bucket ?hi - bucket ?lo) div BUCKET = ?hi div BUCKET - ?lo div BUCKET"
    by (simp add: BUCKET_def)
  then have k: "?k < Suc ?n"
    using d1 d2 by linarith
  have "int ?k = t div BUCKET - ?lo div BUCKET" using d1 by simp
  then have "bucket ?lo + BUCKET * int ?k = bucket t"
    unfolding bucket_eq by (simp only: right_diff_distrib)
  then have "bucket t \<in> (\<lambda>k. bucket ?lo + BUCKET * int k) ` set [0 ..< Suc ?n]"
    using k by (intro image_eqI [where x = ?k]) (simp_all del: upt_Suc)
  moreover have "bins ts = map (\<lambda>k. bucket ?lo + BUCKET * int k) [0 ..< Suc ?n]"
    using ne by (simp only: bins_def if_False)
  ultimately show ?thesis by (simp only: set_map)
qed

lemma timestamps_iff: "t \<in> set (timestamps rs) \<longleftrightarrow> (\<exists>r \<in> set rs. r ''time'' = Time t)"
  by (induction rs) (auto split: cell.splits)

lemma mean_eq:
  "mean cs = (if numeric_values cs = [] then None
              else Some (sum_list (numeric_values cs) / real (length (numeric_values cs))))"
  by (simp add: mean_def mean_values_def)

lemma bin_mean_eq:
  "bin_mean y_axis rs b =
     (if contributing y_axis rs b = [] then None
      else Some (sum_list (contributing y_axis rs b) / real (length (contributing y_axis rs b))))"
  by (simp add: bin_mean_def contributing_def mean_eq)

lemma resampled_rows_eq:
  "resampled_rows y_axis rs bs =
     map (\<lambda>b. resampled_row y_axis b
                 (sum_list (contributing y_axis rs b) / real (length (contributing y_axis rs b))))
       (filter (\<lambda>b. contributing y_axis rs b \<noteq> []) bs)"
  by (induction bs) (simp_all add: bin_mean_eq)

lemma contributing_in_bins:
  assumes "contributing y_axis rs b \<noteq> []"
  shows "b \<in> set (bins (timestamps rs))"
proof -
  from assms have "filter (in_bin b) rs \<noteq> []" by (auto simp: contributing_def)
  then obtain r where "r \<in> set rs" "in_bin b r" by (auto simp: filter_empty_conv)
  then obtain t where "r ''time'' = Time t" "bucket t = b"
    by (auto simp: in_bin_def split: cell.splits)
  with \<open>r \<in> set rs\<close> have "t \<in> set (timestamps rs)" by (auto simp: timestamps_iff)
  from bucket_in_bins [OF this] \<open>bucket t = b\<close> show ?thesis by simp
qed


subsection \<open>Sanitizer, missing columns, RowFilter and the run\<close>

lemma columns_sanitizer [simp]: "columns (sanitizer df) = columns df"
  by (simp add: sanitizer_def replace_sentinel_def dropna_all_def)

lemma rows_sanitizer:
  "rows (sanitizer df) =
     map (\<lambda>r c. replace_cell SENTINEL (r c)) (filter (\<lambda>r. \<not> blank_row df r) (rows df))"
  by (simp add: sanitizer_def replace_sentinel_def dropna_all_def blank_row_def)

lemma replace_cell_not_sentinel [simp]: "replace_cell s c \<noteq> Num s"
  by (simp add: replace_cell_def)


lemma columns_coerce_axes [simp]: "columns (coerce_axes pd axes df) = columns df"
proof -
  have "columns (fold (\<lambda>col d. if col \<noteq> ''time'' then coerce_column pd col d else d) axes df)
      = columns df"
    by (induction axes arbitrary: df) auto
  then show ?thesis by (simp add: coerce_axes_def)
qed

lemma columns_time_parser [simp]: "columns (time_parser pd df) = columns df"
  by (simp add: time_parser_def)

lemma columns_prepare: "columns (prepare pd df) = columns (column_scoper df)"
  by (simp add: prepare_def axis_resolver_def column_scoper_def sanitizer_def
      replace_sentinel_def dropna_all_def)

lemma columns_column_scoper: "set (columns (column_scoper df)) \<subseteq> set (columns df)"
  by (auto simp: column_scoper_def dest: set_takeWhileD)

lemma lat_idx_absent: "''latitude'' \<notin> set cols \<Longrightarrow> axis_cols cols =
    (if ''time'' \<in> set cols then ''time'' # cols else cols)"
  by (simp add: axis_cols_def lat_idx_def)


lemma coerced_to_numeric [simp]: "coerced (to_numeric_cell pd c)"
  by (cases c) (auto simp: coerced_def split: option.splits)

lemma to_numeric_coerced: "coerced c \<Longrightarrow> to_numeric_cell pd c = c"
  by (auto simp: coerced_def)

lemma rows_coerce_column:
  "rows (coerce_column pd col d) = map (\<lambda>r. r(col := to_numeric_cell pd (r col))) (rows d)"
  by (simp add: coerce_column_def)

lemma coerce_column_idem:
  assumes "\<forall>r \<in> set (rows d). coerced (r col)"
  shows "coerce_column pd col d = d"
proof -
  have "map (\<lambda>r. r(col := to_numeric_cell pd (r col))) (rows d) = map (\<lambda>r. r) (rows d)"
    using assms by (intro map_cong) (auto simp: to_numeric_coerced)
  then show ?thesis by (simp add: coerce_column_def)
qed

lemma coerce_column_coerced:
  assumes "r \<in> set (rows (coerce_column pd col d))"
  shows "coerced (r col)"
  using assms by (auto simp: rows_coerce_column)

lemma coerce_column_keeps:
  assumes "\<forall>r \<in> set (rows d). coerced (r c)"
  shows "\<forall>r \<in> set (rows (coerce_column pd col d)). coerced (r c)"
  using assms by (auto simp: rows_coerce_column)

lemma fold_coerce_coerced:
  assumes "c \<noteq> ''time''"
    and "c \<in> set axes \<or> (\<forall>r \<in> set (rows d). coerced (r c))"
  shows "\<forall>r \<in> set (rows (fold (\<lambda>col d. if col \<noteq> ''time'' then coerce_column pd col d else d) axes d)).
           coerced (r c)"
  using assms(2)
proof (induction axes arbitrary: d)
  case Nil
  then show ?case by simp
next
  case (Cons a axes)
  show ?case
  proof (cases "a = c")
    case True
    then have "\<forall>r \<in> set (rows (coerce_column pd a d)). coerced (r c)"
      by (auto dest: coerce_column_coerced)
    with True assms(1) Cons.IH [of "coerce_column pd a d"] show ?thesis by simp
  next
    case False
    show ?thesis
    proof (cases "a = ''time''")
      case True
      with False Cons.prems Cons.IH [of d] show ?thesis by simp
    next
      case at: False
      from False Cons.prems have "c \<in> set axes \<or> (\<forall>r \<in> set (rows d). coerced (r c))" by auto
      then have "c \<in> set axes \<or> (\<forall>r \<in> set (rows (coerce_column pd a d)). coerced (r c))"
        using coerce_column_keeps [of d c pd a] by blast
      with at Cons.IH [of "coerce_column pd a d"] show ?thesis by simp
    qed
  qed
qed

lemma axis_resolver_coerced:
  assumes "axis_resolver pd df0 = (axes, df)" "c \<in> set axes" "c \<noteq> ''time''" "r \<in> set (rows df)"
  shows "coerced (r c)"
  using assms fold_coerce_coerced [of c axes df0 pd]
  by (auto simp: axis_resolver_def coerce_axes_def)

lemma coerce_selected_idem:
  assumes "\<forall>c \<in> set cs. c \<noteq> ''time'' \<longrightarrow> c \<in> set (columns d) \<and> (\<forall>r \<in> set (rows d). coerced (r c))"
  shows "coerce_selected pd cs d = Inr d"
  using assms by (induction cs) (auto simp: coerce_column_idem)

lemma axis_cols_subset: "set (axis_cols cols) \<subseteq> set cols"
  by (auto simp: axis_cols_def dest: in_set_dropD)

lemma axis_resolver_columns:
  assumes "axis_resolver pd df0 = (axes, df)"
  shows "columns df = columns df0" "set axes \<subseteq> set (columns df)"
  using assms axis_cols_subset [of "columns df0"] by (auto simp: axis_resolver_def)

lemma row_filter_resolved:
  assumes ar: "axis_resolver pd df0 = (axes, df)"
    and x: "x_axis \<in> set axes" and y: "y_axis \<in> set axes"
    and pn: "''platform_name'' \<in> set (columns df)"
  shows "row_filter pd df platform x_axis y_axis =
     Inr (df\<lparr>rows := filter (\<lambda>r. cell_eq (r ''platform_name'') platform \<and>
                                r x_axis \<noteq> Missing \<and> r y_axis \<noteq> Missing) (rows df)\<rparr>)"
proof -
  let ?d = "df\<lparr>rows := filter (\<lambda>r. cell_eq (r ''platform_name'') platform) (rows df)\<rparr>"
  have cols: "x_axis \<in> set (columns df)" "y_axis \<in> set (columns df)"
    using axis_resolver_columns(2) [OF ar] x y by auto
  have "\<forall>c \<in> set [x_axis, y_axis]. c \<noteq> ''time'' \<longrightarrow>
      c \<in> set (columns ?d) \<and> (\<forall>r \<in> set (rows ?d). coerced (r c))"
    using cols x y axis_resolver_coerced [OF ar] by auto
  then have "coerce_selected pd [x_axis, y_axis] ?d = Inr ?d"
    by (rule coerce_selected_idem)
  then show ?thesis
    using pn cols by (simp add: row_filter_def dropna_subset_def conj_ac)
qed


lemma to_datetime_cell_kind [simp]: "timestamp_or_missing (to_datetime_cell pd c)"
  by (cases c) (auto simp: timestamp_or_missing_def split: option.splits)

lemma fold_coerce_time:
  assumes "\<forall>r \<in> set (rows d). P (r ''time'')"
  shows "\<forall>r \<in> set (rows (fold (\<lambda>col d. if col \<noteq> ''time'' then coerce_column pd col d else d) axes d)).
           P (r ''time'')"
  using assms
proof (induction axes arbitrary: d)
  case Nil
  then show ?case by simp
next
  case (Cons a axes)
  show ?case
  proof (cases "a = ''time''")
    case True
    with Cons show ?thesis by simp
  next
    case False
    then have "\<forall>r \<in> set (rows (coerce_column pd a d)). P (r ''time'')"
      using Cons.prems by (auto simp: rows_coerce_column)
    with False Cons.IH [of "coerce_column pd a d"] show ?thesis by simp
  qed
qed

lemma prepare_time_cells:
  assumes "r \<in> set (rows (prepare pd df))" "''time'' \<in> set (columns (prepare pd df))"
  shows "timestamp_or_missing (r ''time'')"
proof -
  let ?d = "time_parser pd (column_scoper (sanitizer df))"
  have "''time'' \<in> set (columns (column_scoper (sanitizer df)))"
    using assms(2) by (simp add: prepare_def axis_resolver_def)
  then have "\<forall>r \<in> set (rows ?d). timestamp_or_missing (r ''time'')"
    by (auto simp: time_parser_def)
  from fold_coerce_time [OF this] assms(1) show ?thesis
    by (simp add: prepare_def axis_resolver_def coerce_axes_def)
qed

lemma coerce_selected_time:
  assumes "coerce_selected pd cs d = Inr d'" "\<forall>r \<in> set (rows d). P (r ''time'')"
  shows "\<forall>r \<in> set (rows d'). P (r ''time'')"
  using assms
proof (induction pd cs d rule: coerce_selected.induct)
  case (1 pd data)
  then show ?case by simp
next
  case (2 pd col cs data)
  show ?case
  proof (cases "col = ''time''")
    case True
    with 2 show ?thesis by simp
  next
    case False
    with "2.prems"(1) have c: "col \<in> set (columns data)"
      and r: "coerce_selected pd cs (coerce_column pd col data) = Inr d'"
      by (auto split: if_splits)
    have "\<forall>r \<in> set (rows (coerce_column pd col data)). P (r ''time'')"
      using False "2.prems"(2) by (auto simp: rows_coerce_column)
    with "2.IH"(1) [OF _ c r] False show ?thesis by simp
  qed
qed

lemma coerce_selected_coerced:
  assumes "coerce_selected pd cs d = Inr d'" "c \<noteq> ''time''"
    and "c \<in> set cs \<or> (\<forall>r \<in> set (rows d). coerced (r c))"
  shows "\<forall>r \<in> set (rows d'). coerced (r c)"
  using assms(1,3)
proof (induction pd cs d rule: coerce_selected.induct)
  case (1 pd data)
  then show ?case by simp
next
  case (2 pd col cs data)
  show ?case
  proof (cases "col = ''time''")
    case True
    with 2 assms(2) show ?thesis by auto
  next
    case False
    with "2.prems"(1) have cm: "col \<in> set (columns data)"
      and r: "coerce_selected pd cs (coerce_column pd col data) = Inr d'"
      by (auto split: if_splits)
    have "c \<in> set cs \<or> (\<forall>r \<in> set (rows (coerce_column pd col data)). coerced (r c))"
    proof (cases "col = c")
      case True
      then show ?thesis by (auto dest: coerce_column_coerced)
    next
      case False
      with "2.prems"(2) have "c \<in> set cs \<or> (\<forall>r \<in> set (rows data). coerced (r c))" by auto
      then show ?thesis using coerce_column_keeps [of data c pd col] by blast
    qed
    with "2.IH"(1) [OF _ cm r] False show ?thesis by simp
  qed
qed

lemma row_filter_cells:
  assumes rf: "row_filter pd df platform x_axis y_axis = Inr data"
    and r: "r \<in> set (rows data)"
  shows "(\<forall>r0 \<in> set (rows df). P (r0 ''time'')) \<Longrightarrow> P (r ''time'')"
    and "y_axis \<noteq> ''time'' \<Longrightarrow> \<exists>v. r y_axis = Num v"
proof -
  let ?d = "df\<lparr>rows := filter (\<lambda>r. cell_eq (r ''platform_name'') platform) (rows df)\<rparr>"
  from rf obtain d where d: "coerce_selected pd [x_axis, y_axis] ?d = Inr d"
    and dn: "dropna_subset [x_axis, y_axis] d = Inr data"
    by (auto simp: row_filter_def split: if_splits sum.splits)
  from dn r have rd: "r \<in> set (rows d)" and ny: "r y_axis \<noteq> Missing"
    by (auto simp: dropna_subset_Inr)
  show "P (r ''time'')" if "\<forall>r0 \<in> set (rows df). P (r0 ''time'')"
  proof -
    from that have "\<forall>r0 \<in> set (rows ?d). P (r0 ''time'')" by simp
    from coerce_selected_time [OF d this] rd show ?thesis by blast
  qed
  show "\<exists>v. r y_axis = Num v" if "y_axis \<noteq> ''time''"
  proof -
    have "\<forall>r \<in> set (rows d). coerced (r y_axis)"
      using coerce_selected_coerced [OF d that] by simp
    with rd ny show ?thesis by (auto simp: coerced_def)
  qed
qed

lemma numeric_values_nonempty: "Num v \<in> set cs \<Longrightarrow> numeric_values cs \<noteq> []"
  by (induction cs rule: numeric_values.induct) auto

lemma resampler_nonempty:
  assumes "resampler y_axis data = Inr out" "rows data \<noteq> []"
    and "\<forall>r \<in> set (rows data). \<exists>t. r ''time'' = Time t"
    and "\<forall>r \<in> set (rows data). \<exists>v. r y_axis = Num v"
  shows "rows out \<noteq> []"
proof -
  from assms(2) obtain r where r: "r \<in> set (rows data)" by (cases "rows data") auto
  with assms(3,4) obtain t v where t: "r ''time'' = Time t" and v: "r y_axis = Num v" by blast
  have "r \<in> set (filter (in_bin (bucket t)) (rows data))"
    using r t by (simp add: in_bin_def)
  then have "Num v \<in> set (map (\<lambda>r. r y_axis) (filter (in_bin (bucket t)) (rows data)))"
    using v by (metis (mono_tags, lifting) image_eqI set_map)
  then have c: "contributing y_axis (rows data) (bucket t) \<noteq> []"
    unfolding contributing_def by (rule numeric_values_nonempty)
  from contributing_in_bins [OF c] c
  have "filter (\<lambda>b. contributing y_axis (rows data) b \<noteq> []) (bins (timestamps (rows data))) \<noteq> []"
    by (auto simp: filter_empty_conv)
  with assms(1) show ?thesis
    by (auto simp: resampler_def resampled_rows_eq split: if_splits)
qed

lemma resample_step_nonempty:
  assumes pn: "''platform_name'' \<in> set (columns (prepare pd df))"
    and rf: "row_filter pd (prepare pd df) platform x_axis y_axis = Inr data"
    and ne: "rows data \<noteq> []"
    and rs: "resample_step x_axis y_axis data = Inr data'"
  shows "rows data' \<noteq> []"
proof (cases "x_axis = ''time''")
  case False
  with rs ne show ?thesis by (simp add: resample_step_def)
next
  case True
  with rs have res: "resampler y_axis data = Inr data'" by (simp add: resample_step_def)
  then have y: "y_axis \<noteq> ''time''" by (auto simp: resampler_def split: if_splits)
  have tc: "''time'' \<in> set (columns (prepare pd df))"
    using row_filter_Inr(2) [OF rf] True by simp
  have "\<exists>t. r ''time'' = Time t" if "r \<in> set (rows data)" for r
  proof -
    have "timestamp_or_missing (r ''time'')"
      using row_filter_cells(1) [OF rf that, of timestamp_or_missing] prepare_time_cells [OF _ tc]
      by blast
    moreover have "r ''time'' \<noteq> Missing"
      using row_filter_Inr(5) [OF rf] that True by auto
    ultimately show ?thesis by (auto simp: timestamp_or_missing_def)
  qed
  moreover have "\<exists>v. r y_axis = Num v" if "r \<in> set (rows data)" for r
    using row_filter_cells(2) [OF rf that y] .
  ultimately show ?thesis using resampler_nonempty [OF res ne] by blast
qed


lemma resampler_total:
  assumes "''time'' \<in> set (columns data)" "y_axis \<in> set (columns data)" "y_axis \<noteq> ''time''"
  shows "\<exists>out. resampler y_axis data = Inr out \<and> columns out = [''time'', y_axis]"
  using assms by (simp add: resampler_def)

lemma normalizer_total:
  assumes "x_axis = ''time'' \<or> x_axis \<in> set (columns data)"
    and "y_axis = ''time'' \<or> y_axis \<in> set (columns data)"
  shows "\<exists>out. normalizer x_axis y_axis data = Inr out"
  using assms by (auto simp: normalizer_def zscore_pass_def)

lemma run_no_raise:
  assumes pn: "''platform_name'' \<in> set (columns (column_scoper df))"
    and x: "x_axis \<in> set (axis_cols (columns (column_scoper df)))"
    and y: "y_axis \<in> set (axis_cols (columns (column_scoper df)))"
    and xy: "x_axis \<noteq> ''time'' \<or> y_axis \<noteq> ''time''"
  shows "run pd df platform x_axis y_axis \<noteq> Raised e"
proof -
  let ?d0 = "time_parser pd (column_scoper (sanitizer df))"
  have c0: "columns ?d0 = columns (column_scoper df)"
    by (simp add: column_scoper_def sanitizer_def replace_sentinel_def dropna_all_def)
  have "axis_resolver pd ?d0 = (axis_cols (columns ?d0), prepare pd df)"
    by (simp add: axis_resolver_def prepare_def)
  then have ar: "axis_resolver pd ?d0 = (axis_cols (columns (column_scoper df)), prepare pd df)"
    by (simp only: c0)
  have pn': "''platform_name'' \<in> set (columns (prepare pd df))"
    using pn by (simp add: columns_prepare)
  from row_filter_resolved [OF ar x y pn', of platform]
  obtain data where rf: "row_filter pd (prepare pd df) platform x_axis y_axis = Inr data"
    and cd: "columns data = columns (prepare pd df)"
    by auto
  have xc: "x_axis \<in> set (columns data)" and yc: "y_axis \<in> set (columns data)"
    using row_filter_Inr(1-3) [OF rf] by simp_all
  show ?thesis
  proof (cases "rows data = []")
    case True
    with pn' rf show ?thesis by (simp add: run_def)
  next
    case ne: False
    obtain data' where rs: "resample_step x_axis y_axis data = Inr data'"
      and cols: "x_axis = ''time'' \<or> x_axis \<in> set (columns data')"
        "y_axis = ''time'' \<or> y_axis \<in> set (columns data')"
    proof (cases "x_axis = ''time''")
      case True
      with xy have "y_axis \<noteq> ''time''" by simp
      from resampler_total [OF _ yc this] True xc
      obtain out where "resampler y_axis data = Inr out" "columns out = [''time'', y_axis]" by auto
      with True that show ?thesis by (simp add: resample_step_def)
    next
      case False
      with xc yc that [of data] show ?thesis by (simp add: resample_step_def)
    qed
    from normalizer_total [OF cols] obtain out where "normalizer x_axis y_axis data' = Inr out"
      by blast
    with pn' rf ne rs show ?thesis by (simp add: run_def finish_def)
  qed
qed


text \<open>The Resampler for a \<open>y_axis\<close> other than \<open>time\<close>: it returns the columns \<open>time\<close> and
  \<open>y_axis\<close> with one row for each 15 minute bin that holds a value of \<open>y_axis\<close>, and for no
  other bin; the rows are in strictly increasing order of the start of their bin; and the
  value of a row is the arithmetic mean of the values of \<open>y_axis\<close>, missing ones left out, in
  the rows whose timestamp falls in the bin.\<close>

lemma resampler_other_axis:
  assumes "''time'' \<in> set (columns data)" and "y_axis \<in> set (columns data)"
    and "y_axis \<noteq> ''time''"
  shows "\<exists>out bs. resampler y_axis data = Inr out \<and> columns out = [''time'', y_axis] \<and>
           sorted_wrt (<) bs \<and>
           set bs = {b. contributing y_axis (rows data) b \<noteq> []} \<and>
           rows out =
             map (\<lambda>b. resampled_row y_axis b
                         (sum_list (contributing y_axis (rows data) b)
                            / real (length (contributing y_axis (rows data) b)))) bs"
proof -
  let ?bs = "filter (\<lambda>b. contributing y_axis (rows data) b \<noteq> []) (bins (timestamps (rows data)))"
  have "sorted_wrt (<) ?bs" by (intro sorted_wrt_filter sorted_bins)
  moreover have "set ?bs = {b. contributing y_axis (rows data) b \<noteq> []}"
    using contributing_in_bins by auto
  moreover have "resampler y_axis data =
      Inr \<lparr>columns = [''time'', y_axis], rows = resampled_rows y_axis (rows data) (bins (timestamps (rows data)))\<rparr>"
    using assms by (simp add: resampler_def)
  ultimately show ?thesis
    by (intro exI [where x = ?bs] exI [where x = "\<lparr>columns = [''time'', y_axis],
          rows = resampled_rows y_axis (rows data) (bins (timestamps (rows data)))\<rparr>"])
       (simp add: resampled_rows_eq)
qed

subsection \<open>The timestamp format\<close>

lemma digit_char_props:
  assumes "d < 10"
  shows "is_digit (digit_char d)" "digit_value (digit_char d) = d"
  using assms by (simp_all add: is_digit_def digit_char_def digit_value_def)

lemma pad_digits: "n < 10 ^ w \<Longrightarrow> list_all is_digit (pad w n)"
  by (induction w arbitrary: n) (auto simp: digit_char_props)

lemma length_pad [simp]: "length (pad w n) = w"
  by (induction w arbitrary: n) auto

lemma number_snoc: "number (ds @ [c]) = 10 * number ds + digit_value c"
  by (simp add: number_def)

lemma number_pad: "n < 10 ^ w \<Longrightarrow> number (pad w n) = n"
proof (induction w arbitrary: n)
  case 0
  then show ?case by (simp add: number_def)
next
  case (Suc w)
  then have "n div 10 < 10 ^ w" by (simp add: less_mult_imp_div_less mult.commute)
  with Suc.IH have "number (pad w (n div 10)) = n div 10" .
  then show ?case by (simp add: number_snoc digit_char_props)
qed

lemma takeWhile_digits:
  assumes "list_all is_digit ds" "\<not> is_digit c"
  shows "takeWhile is_digit (ds @ c # rest) = ds" "dropWhile is_digit (ds @ c # rest) = c # rest"
  using assms by (induction ds) auto

lemma field_pad:
  assumes "n < 10 ^ w" "wmin \<le> w" "w \<le> wmax" "lo \<le> n" "n \<le> hi" "\<not> is_digit c"
  shows "field wmin wmax lo hi (pad w n @ c # rest) = Some (n, c # rest)"
  using assms by (simp add: field_def takeWhile_digits pad_digits number_pad)

lemma literal_Cons [simp]: "literal c (c # rest) = Some rest"
  by (simp add: literal_def)

lemma letter_Cons [simp]: "letter c l (c # rest) = Some rest"
  by (simp add: letter_def)

lemma day_field_digits:
  assumes "ds \<noteq> []" "list_all is_digit ds"
  shows "day_field (ds @ rest) = field 1 2 1 31 (ds @ rest)"
  using assms by (cases ds) (auto simp: day_field_def is_digit_def split: list.splits)

lemma day_field_pad:
  assumes "n < 10 ^ w" "0 < w"
  shows "day_field (pad w n @ rest) = field 1 2 1 31 (pad w n @ rest)"
proof (rule day_field_digits)
  from assms(2) have "length (pad w n) \<noteq> 0" by simp
  then show "pad w n \<noteq> []" by fastforce
  show "list_all is_digit (pad w n)" by (rule pad_digits [OF assms(1)])
qed

lemma not_digit_seps [simp]:
  "\<not> is_digit CHR ''-''" "\<not> is_digit CHR ''T''" "\<not> is_digit CHR '':''" "\<not> is_digit CHR ''Z''"
  by (simp_all add: is_digit_def)

lemma strptime_strftime:
  assumes "valid_datetime f"
  shows "strptime (strftime f) = Some f"
proof -
  from assms have r: "year f < 10 ^ 4" "month f < 10 ^ 2" "day f < 10 ^ 2" "hour f < 10 ^ 2"
      "minute f < 10 ^ 2" "second f < 10 ^ 2" "1 \<le> month f" "month f \<le> 12" "1 \<le> day f"
      "day f \<le> 31" "hour f \<le> 23" "minute f \<le> 59" "second f \<le> 61" "year f \<le> 9999"
    by (auto simp: valid_datetime_def days_in_month_def split: if_splits)
  have eta: "\<lparr>year = year f, month = month f, day = day f, hour = hour f,
      minute = minute f, second = second f\<rparr> = f"
    by (cases f) simp
  have "strptime (strftime f) =
      (let g = \<lparr>year = year f, month = month f, day = day f, hour = hour f,
         minute = minute f, second = second f\<rparr>
       in if valid_datetime g then Some g else None)"
    unfolding strptime_def strftime_def using r
    by (simp add: field_pad day_field_pad del: pad.simps)
  also have "\<dots> = Some f"
    using assms by (simp only: Let_def eta if_True)
  finally show ?thesis .
qed

lemma field_Some:
  assumes "field wmin wmax lo hi s = Some (n, rest)"
  shows "lo \<le> n" "n \<le> hi"
  using assms by (auto simp: field_def Let_def split: if_splits)

lemma strptime_valid: "strptime s = Some f \<Longrightarrow> valid_datetime f"
  unfolding strptime_def
  by (clarsimp simp: Option.bind_eq_Some_conv Let_def split: if_splits)

lemma strptime_stable: "strptime s = Some f \<Longrightarrow> strptime (strftime f) = Some f"
  by (rule strptime_strftime [OF strptime_valid])

lemma to_datetime_Some:
  "to_datetime s = Some t \<longleftrightarrow> (\<exists>f. strptime s = Some f \<and> in_bounds (timegm f) \<and> t = timegm f)"
  by (auto simp: to_datetime_def split: option.splits)

lemma pandas_simps:
  "datetime_of_string pandas = to_datetime" "numeric_of_string pandas = integer_literal"
  by (simp_all add: pandas_def)

subsection \<open>The example frames, evaluated\<close>

lemma reading_simps [simp]:
  "reading p lat h ''platform_name'' = p"
  "reading p lat h ''latitude'' = lat"
  "reading p lat h ''hbb'' = h"
  by (simp_all add: reading_def)

lemma reading_upd [simp]:
  "(reading p lat h)(''latitude'' := lat') = reading p lat' h"
  "(reading p lat h)(''hbb'' := h') = reading p lat h'"
  by (auto simp: reading_def fun_eq_iff)

lemma single_prepare: "prepare pandas single_df = single_df"
  by (simp add: prepare_def axis_resolver_def coerce_axes_def axis_cols_def lat_idx_def
      time_parser_def column_scoper_def sanitizer_def replace_sentinel_def dropna_all_def
      single_df_def coerce_column_def replace_cell_def SENTINEL_def reading_def fun_eq_iff)

lemma single_filter:
  "row_filter pandas single_df (Str ''A'') ''latitude'' ''hbb'' = Inr single_df"
  by (simp add: row_filter_def single_df_def cell_eq_def coerce_column_def dropna_subset_def)

lemma sentinel_sanitized:
  "rows (sanitizer sentinel_df) =
     [reading Missing Missing Missing,
      reading (Str ''A'') (Str ''-9999'') (Num 1),
      reading (Str ''A'') (Str ''x'') (Num 2)]"
  by (simp add: rows_sanitizer sentinel_df_def blank_row_def replace_cell_def SENTINEL_def
      reading_def fun_eq_iff)

lemma integer_literal_examples:
  "integer_literal ''-9999'' = Some (- 9999)" "integer_literal ''x'' = None"
  by (simp_all add: integer_literal_def is_digit_def number_def digit_value_def)

lemma sentinel_prepared:
  "prepare pandas sentinel_df =
     \<lparr>columns = [''platform_name'', ''latitude'', ''hbb''],
      rows = [reading Missing Missing Missing,
              reading (Str ''A'') (Num (- 9999)) (Num 1),
              reading (Str ''A'') Missing (Num 2)]\<rparr>"
proof -
  have "sanitizer sentinel_df = \<lparr>columns = [''platform_name'', ''latitude'', ''hbb''],
      rows = [reading Missing Missing Missing,
              reading (Str ''A'') (Str ''-9999'') (Num 1),
              reading (Str ''A'') (Str ''x'') (Num 2)]\<rparr>"
    by (rule dataframe.equality) (simp_all add: sentinel_sanitized, simp add: sentinel_df_def)
  then show ?thesis
    by (simp add: prepare_def axis_resolver_def coerce_axes_def axis_cols_def lat_idx_def
        time_parser_def column_scoper_def coerce_column_def pandas_def integer_literal_examples)
qed

lemma no_platform_prepare: "columns (prepare pandas no_platform_df) = [''latitude'', ''hbb'']"
  by (simp add: columns_prepare column_scoper_def no_platform_df_def)

lemma mixed_resolved:
  "axis_resolver pandas mixed_df = ([''latitude'', ''hbb''], mixed_df)"
  by (simp add: axis_resolver_def coerce_axes_def axis_cols_def lat_idx_def mixed_df_def
      coerce_column_def)

lemma mixed_prepare: "prepare pandas mixed_df = mixed_df"
proof -
  have "sanitizer mixed_df = mixed_df"
    by (rule dataframe.equality)
       (simp_all add: rows_sanitizer, simp add: mixed_df_def blank_row_def replace_cell_def
          SENTINEL_def reading_def fun_eq_iff)
  moreover have "column_scoper mixed_df = mixed_df"
    by (simp add: column_scoper_def mixed_df_def)
  moreover have "time_parser pandas mixed_df = mixed_df"
    by (simp add: time_parser_def mixed_df_def)
  ultimately show ?thesis by (simp add: prepare_def mixed_resolved)
qed

lemma mixed_filter_A:
  "row_filter pandas mixed_df (Str ''A'') ''latitude'' ''hbb'' =
     Inr \<lparr>columns = [''platform_name'', ''latitude'', ''hbb''],
          rows = [reading (Str ''A'') (Num 0) (Num 5), reading (Str ''A'') (Num 2) (Num 8)]\<rparr>"
  by (simp add: row_filter_def mixed_df_def cell_eq_def coerce_column_def dropna_subset_def)

lemma mixed_filter_C:
  "row_filter pandas mixed_df (Str ''C'') ''latitude'' ''hbb'' =
     Inr \<lparr>columns = [''platform_name'', ''latitude'', ''hbb''], rows = []\<rparr>"
  by (simp add: row_filter_def mixed_df_def cell_eq_def coerce_column_def dropna_subset_def)

lemma bare_columns: "columns bare_df = [''value'']"
  by (simp add: bare_df_def)

lemma timed_simps [simp]:
  "timed t h ''time'' = Time t" "timed t h ''hbb'' = Num h" "timed t h ''platform_name'' = Str ''A''"
  by (simp_all add: timed_def)

lemma timed_bins: "bins (timestamps (rows timed_df)) = [0, 900]"
proof -
  have "timestamps (rows timed_df) = [1000, 0, 60]" by (simp add: timed_df_def)
  moreover have "Min (set [1000, 0, 60 :: int]) = 0" "Max (set [1000, 0, 60 :: int]) = 1000"
    by simp_all
  ultimately show ?thesis
    by (simp add: bins_def bucket_def BUCKET_def upt_rec)
qed

lemma timed_resampler:
  "resampler ''hbb'' timed_df =
     Inr \<lparr>columns = [''time'', ''hbb''],
          rows = [resampled_row ''hbb'' 0 2, resampled_row ''hbb'' 900 10]\<rparr>"
  unfolding resampler_def timed_bins
  by (simp add: timed_df_def bin_mean_def in_bin_def bucket_def BUCKET_def mean_def mean_values_def)

lemma sqrt_36: "sqrt 36 = 6" and sqrt_4: "sqrt 4 = 2"
  by (rule real_sqrt_unique; simp)+

lemma outlier_latitude:
  "mean (map (\<lambda>r. r ''latitude'') (rows outlier_df)) = Some 2"
  "std (map (\<lambda>r. r ''latitude'') (rows outlier_df)) = Some 6"
  by (simp_all add: outlier_df_def mean_def std_def mean_values_def std_values_def sqrt_36)

lemma outlier_own_z:
  "own_z ''latitude'' (rows outlier_df) (reading p (Num v) h) = Some ((v - 2) / 6)"
  unfolding own_z_def outlier_latitude by simp

lemma outlier_rejected:
  "rejected ''latitude'' (rows outlier_df) (reading p (Num v) h) \<longleftrightarrow> \<bar>(v - 2) / 6\<bar> > 3"
  unfolding rejected_def outlier_own_z outlier_latitude by simp

lemma outlier_kept:
  "filter (\<lambda>r. \<not> rejected ''latitude'' (rows outlier_df) r) (rows outlier_df) =
     [reading (Str ''A'') (Num 0) (Num (- 2)),
      reading (Str ''A'') (Num 0) (Num (- 2)),
      reading (Str ''A'') (Num 0) (Num (- 2)),
      reading (Str ''A'') (Num 0) (Num (- 2)),
      reading (Str ''A'') (Num 0) (Num (- 2)),
      reading (Str ''A'') (Num 0) (Num 0),
      reading (Str ''A'') (Num 0) (Num 2),
      reading (Str ''A'') (Num 0) (Num 2),
      reading (Str ''A'') (Num 1) (Num 2),
      reading (Str ''A'') (Num 1) (Num 2),
      reading (Str ''A'') (Num 1) (Num 2)]"
proof -
  have "filter (\<lambda>r. \<not> rejected ''latitude'' (rows outlier_df) r) rs =
     [reading (Str ''A'') (Num 0) (Num (- 2)),
      reading (Str ''A'') (Num 0) (Num (- 2)),
      reading (Str ''A'') (Num 0) (Num (- 2)),
      reading (Str ''A'') (Num 0) (Num (- 2)),
      reading (Str ''A'') (Num 0) (Num (- 2)),
      reading (Str ''A'') (Num 0) (Num 0),
      reading (Str ''A'') (Num 0) (Num 2),
      reading (Str ''A'') (Num 0) (Num 2),
      reading (Str ''A'') (Num 1) (Num 2),
      reading (Str ''A'') (Num 1) (Num 2),
      reading (Str ''A'') (Num 1) (Num 2)]"
    if "rs = [reading (Str ''A'') (Num 0) (Num (- 2)),
              reading (Str ''A'') (Num 0) (Num (- 2)),
              reading (Str ''A'') (Num 21) (Num 50),
              reading (Str ''A'') (Num 0) (Num (- 2)),
              reading (Str ''A'') (Num 0) (Num (- 2)),
              reading (Str ''A'') (Num 0) (Num (- 2)),
              reading (Str ''A'') (Num 0) (Num 0),
              reading (Str ''A'') (Num 0) (Num 2),
              reading (Str ''A'') (Num 0) (Num 2),
              reading (Str ''A'') (Num 1) (Num 2),
              reading (Str ''A'') (Num 1) (Num 2),
              reading (Str ''A'') (Num 1) (Num 2)]" for rs
    unfolding that by (simp add: outlier_rejected)
  from this [of "rows outlier_df"] show ?thesis by (simp add: outlier_df_def)
qed

lemma outlier_hbb_kept:
  "mean (map (\<lambda>r. r ''hbb'')
     (filter (\<lambda>r. \<not> rejected ''latitude'' (rows outlier_df) r) (rows outlier_df))) = Some 0"
  "std (map (\<lambda>r. r ''hbb'')
     (filter (\<lambda>r. \<not> rejected ''latitude'' (rows outlier_df) r) (rows outlier_df))) = Some 2"
  unfolding outlier_kept
  by (simp_all add: mean_def std_def mean_values_def std_values_def sqrt_4)

lemma outlier_hbb_all: "mean (column ''hbb'' outlier_df) = Some (25 / 6)"
  by (simp add: outlier_df_def column_def mean_def mean_values_def)

lemma outlier_first_pass: "normalized ''latitude'' (rows outlier_df) = outlier_half"
  unfolding normalized_def outlier_latitude outlier_kept
  by (simp add: outlier_own_z outlier_half_def)

lemma half_hbb:
  "mean (map (\<lambda>r. r ''hbb'') outlier_half) = Some 0"
  "std (map (\<lambda>r. r ''hbb'') outlier_half) = Some 2"
  by (simp_all add: outlier_half_def mean_def std_def mean_values_def std_values_def sqrt_4)

lemma half_own_z: "own_z ''hbb'' outlier_half (reading p lat (Num v)) = Some (v / 2)"
  unfolding own_z_def half_hbb by simp

lemma half_rejected: "rejected ''hbb'' outlier_half (reading p lat (Num v)) \<longleftrightarrow> \<bar>v / 2\<bar> > 3"
  unfolding rejected_def half_own_z half_hbb by simp

lemma outlier_second_pass: "normalized ''hbb'' outlier_half = outlier_out"
proof -
  have "map (\<lambda>r. r(''hbb'' := (case own_z ''hbb'' outlier_half r of Some z \<Rightarrow> Num z | None \<Rightarrow> Missing)))
          (filter (\<lambda>r. \<not> rejected ''hbb'' outlier_half r) rs) = outlier_out"
    if "rs = outlier_half" for rs
    unfolding that by (subst (3) outlier_half_def) (simp add: half_rejected half_own_z outlier_out_def)
  from this [of outlier_half] show ?thesis
    unfolding normalized_def half_hbb by simp
qed

lemma outlier_normalizer:
  "normalizer ''latitude'' ''hbb'' outlier_df =
     Inr \<lparr>columns = [''platform_name'', ''latitude'', ''hbb''], rows = outlier_out\<rparr>"
proof -
  have 1: "zscore_pass ''latitude'' outlier_df =
      Inr \<lparr>columns = [''platform_name'', ''latitude'', ''hbb''], rows = outlier_half\<rparr>"
    by (rule zscore_pass_eqI) (simp_all add: outlier_first_pass, simp_all add: outlier_df_def)
  have 2: "zscore_pass ''hbb'' \<lparr>columns = [''platform_name'', ''latitude'', ''hbb''], rows = outlier_half\<rparr> =
      Inr \<lparr>columns = [''platform_name'', ''latitude'', ''hbb''], rows = outlier_out\<rparr>"
    by (rule zscore_pass_eqI) (simp_all add: outlier_second_pass)
  show ?thesis by (simp add: normalizer_def 1 2)
qed

text \<open>The frames \<open>plain_df\<close> and \<open>clock_df\<close>.\<close>

lemma sample_simps [simp]:
  "sample p v d ''platform_name'' = p" "sample p v d ''value'' = v" "sample p v d ''depth'' = d"
  by (simp_all add: sample_def)

lemma sample_upd [simp]:
  "(sample p v d)(''platform_name'' := p') = sample p' v d"
  "(sample p v d)(''value'' := v') = sample p v' d"
  "(sample p v d)(''depth'' := d') = sample p v d'"
  by (auto simp: sample_def fun_eq_iff)

lemma plain_prepare: "prepare pandas plain_df = plain_df"
proof -
  have "sanitizer plain_df = plain_df"
    by (rule dataframe.equality)
       (simp_all add: rows_sanitizer, simp add: plain_df_def blank_row_def replace_cell_def
          SENTINEL_def sample_def fun_eq_iff)
  then show ?thesis
    by (simp add: prepare_def column_scoper_def time_parser_def axis_resolver_def axis_cols_def
        lat_idx_def coerce_axes_def coerce_column_def plain_df_def)
qed

lemma plain_filter: "row_filter pandas plain_df (Num 7) ''value'' ''depth'' = Inr plain_df"
  by (simp add: row_filter_def cell_eq_def dropna_subset_def coerce_column_def plain_df_def)

lemma plain_normalizer:
  "normalizer ''value'' ''depth'' plain_df =
     Inr \<lparr>columns = [''platform_name'', ''value'', ''depth''],
          rows = [sample (Num 7) (Num (- 1)) (Num (- 1)),
                  sample (Num 7) (Num 0) (Num 0),
                  sample (Num 7) (Num 1) (Num 1)]\<rparr>"
proof -
  have 1: "zscore_pass ''value'' plain_df =
     Inr \<lparr>columns = [''platform_name'', ''value'', ''depth''],
          rows = [sample (Num 7) (Num (- 1)) (Num 3),
                  sample (Num 7) (Num 0) (Num 4),
                  sample (Num 7) (Num 1) (Num 5)]\<rparr>"
    by (simp add: zscore_pass_def zscore_with_def column_def mean_def std_def mean_values_def
        std_values_def zscore_def within_cut_def float_cell_def Z_OUTLIER_CUT_def plain_df_def)
  have 2: "zscore_pass ''depth'' \<lparr>columns = [''platform_name'', ''value'', ''depth''],
          rows = [sample (Num 7) (Num (- 1)) (Num 3),
                  sample (Num 7) (Num 0) (Num 4),
                  sample (Num 7) (Num 1) (Num 5)]\<rparr> =
     Inr \<lparr>columns = [''platform_name'', ''value'', ''depth''],
          rows = [sample (Num 7) (Num (- 1)) (Num (- 1)),
                  sample (Num 7) (Num 0) (Num 0),
                  sample (Num 7) (Num 1) (Num 1)]\<rparr>"
    by (simp add: zscore_pass_def zscore_with_def column_def mean_def std_def mean_values_def
        std_values_def zscore_def within_cut_def float_cell_def Z_OUTLIER_CUT_def)
  show ?thesis by (simp add: normalizer_def 1 2)
qed

lemma plain_run:
  "run pandas plain_df (Num 7) ''value'' ''depth'' =
     Plotted \<lparr>columns = [''platform_name'', ''value'', ''depth''],
          rows = [sample (Num 7) (Num (- 1)) (Num (- 1)),
                  sample (Num 7) (Num 0) (Num 0),
                  sample (Num 7) (Num 1) (Num 1)]\<rparr>"
  unfolding run_def plain_prepare plain_filter
  by (simp add: resample_step_def finish_def plain_normalizer) (simp add: plain_df_def)

lemma clock_times:
  "to_datetime ''2024-01-05T03:04:05Z'' = Some 1704423845"
  "to_datetime ''2024-01-05T03:10:00Z'' = Some 1704424200"
  by code_simp+

lemma sighting_simps [simp]:
  "sighting p t lat h ''platform_name'' = p" "sighting p t lat h ''time'' = t"
  "sighting p t lat h ''latitude'' = lat" "sighting p t lat h ''hbb'' = h"
  by (simp_all add: sighting_def)

lemma sighting_upd [simp]:
  "(sighting p t lat h)(''time'' := t') = sighting p t' lat h"
  "(sighting p t lat h)(''latitude'' := lat') = sighting p t lat' h"
  "(sighting p t lat h)(''hbb'' := h') = sighting p t lat h'"
  by (auto simp: sighting_def fun_eq_iff)

lemma clock_prepare:
  "prepare pandas clock_df =
     \<lparr>columns = [''platform_name'', ''time'', ''latitude'', ''hbb''],
      rows = [sighting (Str ''A'') (Time 1704423845) (Num 1) (Num 2),
              sighting (Str ''A'') (Time 1704424200) (Num 3) (Num 4)]\<rparr>"
proof -
  have "sanitizer clock_df = clock_df"
    by (rule dataframe.equality)
       (simp_all add: rows_sanitizer, simp add: clock_df_def blank_row_def replace_cell_def
          SENTINEL_def sighting_def fun_eq_iff)
  moreover have "column_scoper clock_df = clock_df"
    by (simp add: column_scoper_def clock_df_def)
  moreover have "time_parser pandas clock_df =
     \<lparr>columns = [''platform_name'', ''time'', ''latitude'', ''hbb''],
      rows = [sighting (Str ''A'') (Time 1704423845) (Num 1) (Num 2),
              sighting (Str ''A'') (Time 1704424200) (Num 3) (Num 4)]\<rparr>"
    by (simp add: time_parser_def clock_df_def pandas_def clock_times)
  ultimately show ?thesis
    by (simp add: prepare_def axis_resolver_def coerce_axes_def axis_cols_def lat_idx_def
        coerce_column_def)
qed


text \<open>Three strings of a column \<open>time\<close>.\<close>

lemma lenient_parsed:
  "strptime ''2024-1-5T3:4:5Z'' = Some \<lparr>year = 2024, month = 1, day = 5, hour = 3, minute = 4, second = 5\<rparr>"
  by code_simp

lemma lenient_instant: "to_datetime ''2024-1-5T3:4:5Z'' = Some 1704423845"
  by code_simp

lemma lenient_printed:
  "strftime \<lparr>year = 2024, month = 1, day = 5, hour = 3, minute = 4, second = 5\<rparr> = ''2024-01-05T03:04:05Z''"
  by code_simp

lemma yesterday_rejected: "to_datetime ''yesterday'' = None"
  by code_simp

lemma lenient_valid:
  "valid_datetime \<lparr>year = 2024, month = 1, day = 5, hour = 3, minute = 4, second = 5\<rparr>"
  "in_bounds (timegm \<lparr>year = 2024, month = 1, day = 5, hour = 3, minute = 4, second = 5\<rparr>)"
  "timegm \<lparr>year = 2024, month = 1, day = 5, hour = 3, minute = 4, second = 5\<rparr> = 1704423845"
  by code_simp+

section \<open>The Normalizer\<close>

text \<open>Claim C1. Sequential coupling: for two different axis columns, neither of them
  \<open>time\<close>, the pass over \<open>y_axis\<close> runs on the frame \<open>d\<close> that the pass over \<open>x_axis\<close>
  returns. The column \<open>y_axis\<close> of \<open>d\<close> holds the values of the rows that entered the
  Normalizer minus those rejected on \<open>x_axis\<close> (the absolute value of their z-score in
  \<open>x_axis\<close>, taken over all the rows that entered, exceeds 3), and the mean and the standard
  deviation that the second pass uses are those of these values, not of the values of all
  the rows that entered.\<close>

theorem sequential_coupling:
  assumes "x_axis \<noteq> ''time''" and "y_axis \<noteq> ''time''" and "x_axis \<noteq> y_axis"
    and "x_axis \<in> set (columns data)" and "y_axis \<in> set (columns data)"
  shows "\<exists>d. zscore_pass x_axis data = Inr d \<and>
           column y_axis d =
             map (\<lambda>r. r y_axis) (filter (\<lambda>r. \<not> rejected x_axis (rows data) r) (rows data)) \<and>
           normalizer x_axis y_axis data =
             Inr (zscore_with
                    (mean (map (\<lambda>r. r y_axis)
                       (filter (\<lambda>r. \<not> rejected x_axis (rows data) r) (rows data))))
                    (std (map (\<lambda>r. r y_axis)
                       (filter (\<lambda>r. \<not> rejected x_axis (rows data) r) (rows data))))
                    y_axis d)"
proof -
  let ?d = "zscore_with (mean (column x_axis data)) (std (column x_axis data)) x_axis data"
  let ?S = "filter (\<lambda>r. \<not> rejected x_axis (rows data) r) (rows data)"
  have d: "zscore_pass x_axis data = Inr ?d"
    using assms(4) by (simp add: zscore_pass_def)
  have "rows ?d = normalized x_axis (rows data)" by (rule rows_zscore_with_normalized)
  then have "map (\<lambda>r. r y_axis) (rows ?d) = map (\<lambda>r. r y_axis) ?S"
    using assms(3) by (auto simp: normalized_def rejected_def o_def)
  then have c: "column y_axis ?d = map (\<lambda>r. r y_axis) ?S" by (simp add: column_def)
  have "normalizer x_axis y_axis data = zscore_pass y_axis ?d"
    using assms(1,2) d by (simp add: normalizer_def split: sum.splits)
  also have "\<dots> = Inr (zscore_with (mean (column y_axis ?d)) (std (column y_axis ?d)) y_axis ?d)"
    using assms(5) by (simp add: zscore_pass_def)
  finally show ?thesis using d c by simp
qed

text \<open>On \<open>outlier_df\<close> the pass over \<open>latitude\<close> rejects the third row, and the mean of
  \<open>hbb\<close> that the second pass uses, 0, is not the mean over all twelve rows, 25/6.\<close>

theorem sequential_coupling_witness:
  "''latitude'' \<noteq> ''time'' \<and> ''hbb'' \<noteq> ''time'' \<and> ''latitude'' \<noteq> ''hbb'' \<and>
   ''latitude'' \<in> set (columns outlier_df) \<and> ''hbb'' \<in> set (columns outlier_df) \<and>
   length (rows outlier_df) = 12 \<and>
   rejected ''latitude'' (rows outlier_df) (reading (Str ''A'') (Num 21) (Num 50)) \<and>
   filter (\<lambda>r. \<not> rejected ''latitude'' (rows outlier_df) r) (rows outlier_df) =
     [reading (Str ''A'') (Num 0) (Num (- 2)),
      reading (Str ''A'') (Num 0) (Num (- 2)),
      reading (Str ''A'') (Num 0) (Num (- 2)),
      reading (Str ''A'') (Num 0) (Num (- 2)),
      reading (Str ''A'') (Num 0) (Num (- 2)),
      reading (Str ''A'') (Num 0) (Num 0),
      reading (Str ''A'') (Num 0) (Num 2),
      reading (Str ''A'') (Num 0) (Num 2),
      reading (Str ''A'') (Num 1) (Num 2),
      reading (Str ''A'') (Num 1) (Num 2),
      reading (Str ''A'') (Num 1) (Num 2)] \<and>
   mean (column ''hbb'' outlier_df) = Some (25 / 6) \<and>
   (\<exists>d. zscore_pass ''latitude'' outlier_df = Inr d \<and>
        column ''hbb'' d =
          map (\<lambda>r. r ''hbb'')
            (filter (\<lambda>r. \<not> rejected ''latitude'' (rows outlier_df) r) (rows outlier_df)) \<and>
        normalizer ''latitude'' ''hbb'' outlier_df = Inr (zscore_with (Some 0) (Some 2) ''hbb'' d))"
proof -
  have h: "''latitude'' \<noteq> ''time''" "''hbb'' \<noteq> ''time''" "''latitude'' \<noteq> ''hbb''"
    "''latitude'' \<in> set (columns outlier_df)" "''hbb'' \<in> set (columns outlier_df)"
    by (simp_all add: outlier_df_def)
  have l: "length (rows outlier_df) = 12" by (simp add: outlier_df_def)
  have r: "rejected ''latitude'' (rows outlier_df) (reading (Str ''A'') (Num 21) (Num 50))"
    by (simp add: outlier_rejected)
  from sequential_coupling [OF h] have
    "\<exists>d. zscore_pass ''latitude'' outlier_df = Inr d \<and>
        column ''hbb'' d =
          map (\<lambda>r. r ''hbb'')
            (filter (\<lambda>r. \<not> rejected ''latitude'' (rows outlier_df) r) (rows outlier_df)) \<and>
        normalizer ''latitude'' ''hbb'' outlier_df = Inr (zscore_with (Some 0) (Some 2) ''hbb'' d)"
    by (simp only: outlier_hbb_kept)
  with h l r outlier_kept outlier_hbb_all show ?thesis by (intro conjI)
qed

text \<open>Claim C4. The rows that the Normalizer returns are the rows that entered it, in
  their order, passed through \<open>normalized\<close> for \<open>x_axis\<close> and then for \<open>y_axis\<close> (a
  column named \<open>time\<close> is skipped): in a column whose deviation is not zero every row left
  holds its own z-score, not its raw value, and the rows whose z-score exceeds 3 in
  absolute value are gone. So every remaining row holds, in each selected column other
  than \<open>time\<close>, a number of absolute value at most the cut.\<close>

theorem post_normalizer_zscores:
  assumes "normalizer x_axis y_axis data = Inr out"
  shows "rows out =
           (if y_axis = ''time'' then (\<lambda>rs. rs) else normalized y_axis)
             ((if x_axis = ''time'' then (\<lambda>rs. rs) else normalized x_axis) (rows data)) \<and>
         (\<forall>r \<in> set (rows out). \<forall>c. (c = x_axis \<or> c = y_axis) \<and> c \<noteq> ''time'' \<longrightarrow>
            (\<exists>v. r c = Num v \<and> \<bar>v\<bar> \<le> Z_OUTLIER_CUT))"
proof (intro conjI ballI allI impI)
  show eq: "rows out =
           (if y_axis = ''time'' then (\<lambda>rs. rs) else normalized y_axis)
             ((if x_axis = ''time'' then (\<lambda>rs. rs) else normalized x_axis) (rows data))"
    by (rule normalizer_rows [OF assms])
  fix r c assume r: "r \<in> set (rows out)" and c: "(c = x_axis \<or> c = y_axis) \<and> c \<noteq> ''time''"
  show "\<exists>v. r c = Num v \<and> \<bar>v\<bar> \<le> Z_OUTLIER_CUT"
  proof (cases "c = y_axis")
    case True
    with c r eq show ?thesis by (auto dest: normalized_own)
  next
    case False
    with c have cx: "c = x_axis" "x_axis \<noteq> ''time''" by auto
    have "\<exists>r1 \<in> set (normalized x_axis (rows data)). r c = r1 c"
    proof (cases "y_axis = ''time''")
      case True
      with r eq cx show ?thesis by auto
    next
      case yt: False
      with r eq cx have "r \<in> set (normalized y_axis (normalized x_axis (rows data)))" by simp
      from normalized_other [OF this False] show ?thesis .
    qed
    then obtain r1 where "r1 \<in> set (normalized x_axis (rows data))" "r c = r1 c" by blast
    with normalized_own [of r1 x_axis "rows data"] cx show ?thesis by auto
  qed
qed

theorem post_normalizer_zscores_witness:
  "normalizer ''latitude'' ''hbb'' outlier_df =
     Inr \<lparr>columns = [''platform_name'', ''latitude'', ''hbb''], rows = outlier_out\<rparr> \<and>
   outlier_out = normalized ''hbb'' (normalized ''latitude'' (rows outlier_df)) \<and>
   length (rows outlier_df) = 12 \<and> length outlier_out = 11 \<and>
   own_z ''latitude'' (rows outlier_df) (reading (Str ''A'') (Num 21) (Num 50)) = Some (19 / 6) \<and>
   own_z ''latitude'' (rows outlier_df) (reading (Str ''A'') (Num 1) (Num 2)) = Some (- 1 / 6) \<and>
   reading (Str ''A'') (Num (- 1 / 6)) (Num 1) \<in> set outlier_out \<and>
   (\<exists>v. reading (Str ''A'') (Num (- 1 / 6)) (Num 1) ''latitude'' = Num v \<and> \<bar>v\<bar> \<le> Z_OUTLIER_CUT) \<and>
   (\<exists>v. reading (Str ''A'') (Num (- 1 / 6)) (Num 1) ''hbb'' = Num v \<and> \<bar>v\<bar> \<le> Z_OUTLIER_CUT)"
proof -
  note t = post_normalizer_zscores [OF outlier_normalizer]
  have e: "outlier_out = normalized ''hbb'' (normalized ''latitude'' (rows outlier_df))"
    using t by simp
  have m: "reading (Str ''A'') (Num (- 1 / 6)) (Num 1) \<in> set outlier_out"
    by (simp add: outlier_out_def)
  have b: "\<exists>v. reading (Str ''A'') (Num (- 1 / 6)) (Num 1) c = Num v \<and> \<bar>v\<bar> \<le> Z_OUTLIER_CUT"
    if "c = ''latitude'' \<or> c = ''hbb''" for c
    using t m that by auto
  have l: "length (rows outlier_df) = 12" "length outlier_out = 11"
    by (simp_all add: outlier_df_def outlier_out_def)
  have z: "own_z ''latitude'' (rows outlier_df) (reading (Str ''A'') (Num 21) (Num 50)) = Some (19 / 6)"
    "own_z ''latitude'' (rows outlier_df) (reading (Str ''A'') (Num 1) (Num 2)) = Some (- 1 / 6)"
    by (simp_all add: outlier_own_z)
  from outlier_normalizer e l z m b [of "''latitude''"] b [of "''hbb''"] show ?thesis by simp
qed

text \<open>Claim C10. A single row never survives: when the frame that reaches the Normalizer
  has exactly one row and a column other than \<open>time\<close> is selected, the standard deviation of
  a selected column is NaN, the branch for zero deviation is not taken, the NaN z-score
  fails the comparison with the cut, and the run ends with the warning that all rows were
  removed.\<close>

theorem single_row_run:
  assumes "''platform_name'' \<in> set (columns (prepare pd df))"
    and "row_filter pd (prepare pd df) platform x_axis y_axis = Inr data"
    and "rows data \<noteq> []"
    and "resample_step x_axis y_axis data = Inr data'"
    and "length (rows data') = 1"
    and "x_axis \<noteq> ''time'' \<or> y_axis \<noteq> ''time''"
  shows "std (column x_axis data') = None \<and> std (column y_axis data') = None \<and>
         normalizer x_axis y_axis data' = Inr (data'\<lparr>rows := []\<rparr>) \<and>
         run pd df platform x_axis y_axis = Stopped All_rows_removed"
proof -
  have cols: "x_axis \<in> set (columns data')" "y_axis \<in> set (columns data')"
    using assms(4) row_filter_Inr(1-3) [OF assms(2)]
    by (auto simp: resample_step_def split: if_splits dest: resampler_Inr)
  have n: "normalizer x_axis y_axis data' = Inr (data'\<lparr>rows := []\<rparr>)"
    using assms(5,6) cols by (intro single_row_normalizer) auto
  have s: "std (column c data') = None" for c
    using assms(5) by (intro std_short) (simp add: column_def)
  show ?thesis
    using n s assms(1-4) by (simp add: run_def finish_def)
qed

theorem single_row_run_witness:
  "''platform_name'' \<in> set (columns (prepare pandas single_df)) \<and>
   row_filter pandas (prepare pandas single_df) (Str ''A'') ''latitude'' ''hbb'' = Inr single_df \<and>
   rows single_df \<noteq> [] \<and>
   resample_step ''latitude'' ''hbb'' single_df = Inr single_df \<and>
   length (rows single_df) = 1 \<and> ''latitude'' \<noteq> ''time'' \<and>
   std (column ''latitude'' single_df) = None \<and> std (column ''hbb'' single_df) = None \<and>
   normalizer ''latitude'' ''hbb'' single_df = Inr (single_df\<lparr>rows := []\<rparr>) \<and>
   run pandas single_df (Str ''A'') ''latitude'' ''hbb'' = Stopped All_rows_removed"
proof -
  have h1: "''platform_name'' \<in> set (columns (prepare pandas single_df))"
    by (simp add: single_prepare) (simp add: single_df_def)
  have h2: "row_filter pandas (prepare pandas single_df) (Str ''A'') ''latitude'' ''hbb'' = Inr single_df"
    by (simp add: single_prepare single_filter)
  have h3: "rows single_df \<noteq> []" and h5: "length (rows single_df) = 1"
    by (simp_all add: single_df_def)
  have h4: "resample_step ''latitude'' ''hbb'' single_df = Inr single_df"
    by (simp add: resample_step_def)
  have h6: "''latitude'' \<noteq> ''time''" by simp
  from single_row_run [OF h1 h2 h3 h4 h5 disjI1 [OF h6]] h1 h2 h3 h4 h5 h6
  show ?thesis by blast
qed

section \<open>Sanitizer, RowFilter, Resampler and the run\<close>

text \<open>Claim C2, as the code has it. The Sanitizer keeps the column set. Its rows are, in
  order, the rows of the input that have a value in some column, each with its cells equal
  to the number \<open>-9999\<close> made missing and every other cell unchanged. No cell of its result
  is the number \<open>-9999\<close>. The blank rows are dropped before the sentinel is replaced: a
  row of the input whose values are all sentinels, with at least one of them in a column
  of the frame, is kept, and what is kept of it is a blank row of the result.\<close>

theorem sanitizer_post:
  "columns (sanitizer df) = columns df \<and>
   rows (sanitizer df) =
     map (\<lambda>r c. if r c = Num (- 9999) then Missing else r c)
       (filter (\<lambda>r. \<exists>c \<in> set (columns df). r c \<noteq> Missing) (rows df)) \<and>
   \<not> shows_sentinel (sanitizer df) \<and>
   (\<forall>r \<in> set (rows df).
      (\<exists>c \<in> set (columns df). r c = Num (- 9999)) \<and>
      (\<forall>c \<in> set (columns df). r c = Missing \<or> r c = Num (- 9999)) \<longrightarrow>
      (\<lambda>c. if r c = Num (- 9999) then Missing else r c) \<in> set (rows (sanitizer df)) \<and>
      blank_row (sanitizer df) (\<lambda>c. if r c = Num (- 9999) then Missing else r c))"
proof (intro conjI ballI impI)
  show "columns (sanitizer df) = columns df" by simp
  show eq: "rows (sanitizer df) =
     map (\<lambda>r c. if r c = Num (- 9999) then Missing else r c)
       (filter (\<lambda>r. \<exists>c \<in> set (columns df). r c \<noteq> Missing) (rows df))"
    by (simp add: rows_sanitizer blank_row_def replace_cell_def SENTINEL_def)
  show "\<not> shows_sentinel (sanitizer df)"
    by (auto simp: rows_sanitizer shows_sentinel_def)
  fix r assume r: "r \<in> set (rows df)"
    and s: "(\<exists>c \<in> set (columns df). r c = Num (- 9999)) \<and>
      (\<forall>c \<in> set (columns df). r c = Missing \<or> r c = Num (- 9999))"
  from s obtain c where "c \<in> set (columns df)" "r c = Num (- 9999)" by blast
  hence "\<exists>c \<in> set (columns df). r c \<noteq> Missing" by (intro bexI [of _ c]) simp_all
  with r show "(\<lambda>c. if r c = Num (- 9999) then Missing else r c) \<in> set (rows (sanitizer df))"
    unfolding eq by auto
  show "blank_row (sanitizer df) (\<lambda>c. if r c = Num (- 9999) then Missing else r c)"
    using s by (auto simp: blank_row_def)
qed

theorem sanitizer_post_witness:
  "columns (sanitizer sentinel_df) = [''platform_name'', ''latitude'', ''hbb''] \<and>
   rows (sanitizer sentinel_df) =
     [reading Missing Missing Missing,
      reading (Str ''A'') (Str ''-9999'') (Num 1),
      reading (Str ''A'') (Str ''x'') (Num 2)] \<and>
   \<not> shows_sentinel (sanitizer sentinel_df) \<and>
   reading Missing Missing (Num (- 9999)) \<in> set (rows sentinel_df) \<and>
   (\<lambda>c. if reading Missing Missing (Num (- 9999)) c = Num (- 9999) then Missing
        else reading Missing Missing (Num (- 9999)) c) = reading Missing Missing Missing \<and>
   reading Missing Missing Missing \<in> set (rows (sanitizer sentinel_df)) \<and>
   blank_row (sanitizer sentinel_df) (reading Missing Missing Missing)"
proof -
  let ?r = "reading Missing Missing (Num (- 9999))"
  have m: "?r \<in> set (rows sentinel_df)" by (simp add: sentinel_df_def)
  have h: "(\<exists>c \<in> set (columns sentinel_df). ?r c = Num (- 9999)) \<and>
      (\<forall>c \<in> set (columns sentinel_df). ?r c = Missing \<or> ?r c = Num (- 9999))"
    by (simp add: sentinel_df_def)
  have e: "(\<lambda>c. if ?r c = Num (- 9999) then Missing else ?r c) = reading Missing Missing Missing"
    by (simp add: reading_def fun_eq_iff)
  have c: "columns sentinel_df = [''platform_name'', ''latitude'', ''hbb'']"
    by (simp add: sentinel_df_def)
  from sanitizer_post [of sentinel_df] m h
  have "columns (sanitizer sentinel_df) = columns sentinel_df \<and>
      \<not> shows_sentinel (sanitizer sentinel_df) \<and>
      (\<lambda>c. if ?r c = Num (- 9999) then Missing else ?r c) \<in> set (rows (sanitizer sentinel_df)) \<and>
      blank_row (sanitizer sentinel_df) (\<lambda>c. if ?r c = Num (- 9999) then Missing else ?r c)"
    by blast
  then show ?thesis unfolding e c using m e by (simp add: sentinel_sanitized)
qed

text \<open>The claim as the specification states it fails on the frame \<open>sentinel_df\<close>: its
  first row has the sentinel as its only value, so it passes \<^verbatim>\<open>dropna(how="all")\<close> and is
  blank after the replacement; and the string \<open>-9999\<close> of the object column \<open>latitude\<close>
  is left alone by \<^verbatim>\<open>replace\<close> and becomes the number \<open>-9999\<close> when step 5 coerces the
  column.\<close>

theorem sanitizer_counterexample:
  "(\<exists>r \<in> set (rows (sanitizer sentinel_df)). blank_row (sanitizer sentinel_df) r) \<and>
   shows_sentinel (prepare pandas sentinel_df)"
proof -
  have "blank_row (sanitizer sentinel_df) (reading Missing Missing Missing)"
    by (simp add: blank_row_def sentinel_df_def)
  moreover have "shows_sentinel (prepare pandas sentinel_df)"
    unfolding sentinel_prepared shows_sentinel_def SENTINEL_def
    by (intro bexI [where x = "reading (Str ''A'') (Num (- 9999)) (Num 1)"] bexI [where x = "''latitude''"]) simp_all
  ultimately show ?thesis by (auto simp: sentinel_sanitized)
qed

text \<open>Claim C6. RowFilter: for axis columns chosen among those the AxisResolver returns,
  every row that RowFilter accepts is a row of the frame whose platform cell is the
  chosen value and whose cells in both axis columns are present.\<close>

theorem row_filter_post:
  assumes "axis_resolver pd df0 = (axes, df)"
    and "x_axis \<in> set axes" and "y_axis \<in> set axes"
    and "row_filter pd df platform x_axis y_axis = Inr data"
    and "r \<in> set (rows data)"
  shows "r ''platform_name'' = platform \<and> platform \<noteq> Missing \<and>
         r x_axis \<noteq> Missing \<and> r y_axis \<noteq> Missing \<and> r \<in> set (rows df)"
proof -
  have pn: "''platform_name'' \<in> set (columns df)"
    using assms(4) by (auto simp: row_filter_def split: if_splits)
  from row_filter_resolved [OF assms(1-3) pn, of platform] assms(4,5)
  show ?thesis by (auto simp: cell_eq_def)
qed

theorem row_filter_post_witness:
  "axis_resolver pandas mixed_df = ([''latitude'', ''hbb''], mixed_df) \<and>
   ''latitude'' \<in> set [''latitude'', ''hbb''] \<and> ''hbb'' \<in> set [''latitude'', ''hbb''] \<and>
   row_filter pandas mixed_df (Str ''A'') ''latitude'' ''hbb'' =
     Inr \<lparr>columns = [''platform_name'', ''latitude'', ''hbb''],
          rows = [reading (Str ''A'') (Num 0) (Num 5), reading (Str ''A'') (Num 2) (Num 8)]\<rparr> \<and>
   reading (Str ''A'') (Num 2) (Num 8) \<in>
     set (rows \<lparr>columns = [''platform_name'', ''latitude'', ''hbb''],
          rows = [reading (Str ''A'') (Num 0) (Num 5), reading (Str ''A'') (Num 2) (Num 8)]\<rparr>) \<and>
   reading (Str ''A'') (Num 2) (Num 8) ''platform_name'' = Str ''A'' \<and> Str ''A'' \<noteq> Missing \<and>
   reading (Str ''A'') (Num 2) (Num 8) ''latitude'' \<noteq> Missing \<and>
   reading (Str ''A'') (Num 2) (Num 8) ''hbb'' \<noteq> Missing \<and>
   reading (Str ''A'') (Num 2) (Num 8) \<in> set (rows mixed_df)"
proof -
  have x: "''latitude'' \<in> set [''latitude'', ''hbb'']" and y: "''hbb'' \<in> set [''latitude'', ''hbb'']"
    by simp_all
  have m: "reading (Str ''A'') (Num 2) (Num 8) \<in>
     set (rows \<lparr>columns = [''platform_name'', ''latitude'', ''hbb''],
          rows = [reading (Str ''A'') (Num 0) (Num 5), reading (Str ''A'') (Num 2) (Num 8)]\<rparr>)"
    by simp
  from row_filter_post [OF mixed_resolved x y mixed_filter_A m] mixed_resolved x y mixed_filter_A m
  show ?thesis by blast
qed




text \<open>Claim C8. The two empty endings are told apart: the run stops with the warning
  \<open>No_data_left\<close> exactly when RowFilter returns no row, and with the warning
  \<open>All_rows_removed\<close> exactly when RowFilter returned rows, rows reached the Normalizer
  (the Resampler never empties a frame) and the Normalizer returned none.\<close>

theorem empty_states_distinct:
  "(run pd df platform x_axis y_axis = Stopped No_data_left \<longleftrightarrow>
      ''platform_name'' \<in> set (columns (prepare pd df)) \<and>
      (\<exists>data. row_filter pd (prepare pd df) platform x_axis y_axis = Inr data \<and> rows data = [])) \<and>
   (run pd df platform x_axis y_axis = Stopped All_rows_removed \<longleftrightarrow>
      ''platform_name'' \<in> set (columns (prepare pd df)) \<and>
      (\<exists>data data' out.
         row_filter pd (prepare pd df) platform x_axis y_axis = Inr data \<and> rows data \<noteq> [] \<and>
         resample_step x_axis y_axis data = Inr data' \<and> rows data' \<noteq> [] \<and>
         normalizer x_axis y_axis data' = Inr out \<and> rows out = []))"
proof (cases "''platform_name'' \<in> set (columns (prepare pd df))")
  case False
  then show ?thesis by (simp add: run_def)
next
  case pn: True
  show ?thesis
  proof (cases "row_filter pd (prepare pd df) platform x_axis y_axis")
    case (Inl e)
    with pn show ?thesis by (simp add: run_def)
  next
    case rf: (Inr data)
    show ?thesis
    proof (cases "rows data = []")
      case True
      with pn rf show ?thesis by (simp add: run_def)
    next
      case ne: False
      show ?thesis
      proof (cases "resample_step x_axis y_axis data")
        case (Inl e)
        with pn rf ne show ?thesis by (simp add: run_def)
      next
        case rs: (Inr data')
        have ne': "rows data' \<noteq> []" by (rule resample_step_nonempty [OF pn rf ne rs])
        show ?thesis
          using pn rf ne rs ne'
          by (cases "normalizer x_axis y_axis data'") (auto simp: run_def finish_def)
      qed
    qed
  qed
qed

theorem empty_states_distinct_witness:
  "run pandas mixed_df (Str ''C'') ''latitude'' ''hbb'' = Stopped No_data_left \<and>
   run pandas single_df (Str ''A'') ''latitude'' ''hbb'' = Stopped All_rows_removed"
proof -
  have "''platform_name'' \<in> set (columns (prepare pandas mixed_df)) \<and>
      (\<exists>data. row_filter pandas (prepare pandas mixed_df) (Str ''C'') ''latitude'' ''hbb'' = Inr data \<and>
         rows data = [])"
    by (simp add: mixed_prepare mixed_filter_C) (simp add: mixed_df_def)
  then have a: "run pandas mixed_df (Str ''C'') ''latitude'' ''hbb'' = Stopped No_data_left"
    using empty_states_distinct [of pandas mixed_df "Str ''C''" "''latitude''" "''hbb''"] by blast
  have n: "normalizer ''latitude'' ''hbb'' single_df = Inr (single_df\<lparr>rows := []\<rparr>)"
    by (rule single_row_normalizer) (simp_all add: single_df_def)
  have "''platform_name'' \<in> set (columns (prepare pandas single_df)) \<and>
      (\<exists>data data' out.
         row_filter pandas (prepare pandas single_df) (Str ''A'') ''latitude'' ''hbb'' = Inr data \<and>
         rows data \<noteq> [] \<and> resample_step ''latitude'' ''hbb'' data = Inr data' \<and>
         rows data' \<noteq> [] \<and> normalizer ''latitude'' ''hbb'' data' = Inr out \<and> rows out = [])"
    unfolding single_prepare single_filter
    by (intro conjI exI [where x = single_df] exI [where x = "single_df\<lparr>rows := []\<rparr>"])
       (simp_all add: n resample_step_def, simp_all add: single_df_def)
  then have b: "run pandas single_df (Str ''A'') ''latitude'' ''hbb'' = Stopped All_rows_removed"
    using empty_states_distinct [of pandas single_df "Str ''A''" "''latitude''" "''hbb''"] by blast
  from a b show ?thesis ..
qed

text \<open>Claim C5 fails in the code for one selection that the widgets offer. With \<open>time\<close>
  as the x-axis the run resamples, and the select box of the y-axis offers \<open>time\<close> as
  well. For that choice the Resampler returns no frame at all: after
  \<^verbatim>\<open>set_index("time")\<close> the frame has no column of that name and the selection
  \<^verbatim>\<open>[y_axis]\<close> raises \<^verbatim>\<open>KeyError\<close>, whatever the frame. The run on the frame \<open>clock_df\<close>,
  whose two rows pass the RowFilter, ends in that exception.\<close>

theorem resampler_time_twice:
  "resample_step ''time'' ''time'' data = Inl (KeyError ''time'') \<and>
   run pandas clock_df (Str ''A'') ''time'' ''time'' = Raised (KeyError ''time'')"
proof
  show "resample_step ''time'' ''time'' data = Inl (KeyError ''time'')"
    by (simp add: resample_step_def resampler_def)
  show "run pandas clock_df (Str ''A'') ''time'' ''time'' = Raised (KeyError ''time'')"
    unfolding run_def clock_prepare
    by (simp add: row_filter_def cell_eq_def dropna_subset_def resample_step_def resampler_def)
qed

section \<open>TimeParser\<close>




end
